theory Spec2Isabelle
  imports Main
begin

section \<open>Identifiers, errors and responses\<close>

text \<open>
  A stored \<open>ObjectId\<close> is represented by the string its \<open>toString()\<close> prints: twenty-four
  lower-case hexadecimal digits. Route parameters are raw strings. The driver accepts a
  hexadecimal string in either case (\<open>mongoose.Types.ObjectId.isValid\<close>) and casts it to
  the same \<open>ObjectId\<close> whatever its case (\<open>new mongoose.Types.ObjectId(s)\<close>, and the cast
  mongoose applies to a string inside a query or a new document). Only the hexadecimal
  form of an id is modelled; a route parameter in any other form counts as invalid.
\<close>

type_synonym oid = string

definition hex_digit :: "char \<Rightarrow> bool" where
  "hex_digit c = (c \<in> set ''0123456789abcdefABCDEF'')"

definition isValid :: "string \<Rightarrow> bool" where
  "isValid s = (length s = 24 \<and> list_all hex_digit s)"

definition lower_hex :: "char \<Rightarrow> char" where
  "lower_hex c =
     (if c = CHR ''A'' then CHR ''a'' else if c = CHR ''B'' then CHR ''b''
      else if c = CHR ''C'' then CHR ''c'' else if c = CHR ''D'' then CHR ''d''
      else if c = CHR ''E'' then CHR ''e'' else if c = CHR ''F'' then CHR ''f''
      else c)"

definition ObjectId :: "string \<Rightarrow> oid" where
  "ObjectId s = map lower_hex s"

text \<open>
  \<open>ApiError\<close> carries the status code and the message of \<open>throw new ApiError(..)\<close>.
  \<open>TypeError\<close> is the exception of a method call on \<open>undefined\<close>, and \<open>ValidationError\<close>
  the one mongoose raises for a document that lacks a required path; neither is an
  \<open>ApiError\<close>, so the global error middleware of \<open>app.js\<close> answers both with status 500.
\<close>

datatype error = ApiError nat string | TypeError | ValidationError

fun statusCode_of :: "error \<Rightarrow> nat" where
  "statusCode_of (ApiError code msg) = code"
| "statusCode_of TypeError = 500"
| "statusCode_of ValidationError = 500"

datatype 'd response = ApiResponse (statusCode: nat) (data: 'd) (message: string)

text \<open>
  A string is the UTF-8 encoding of the JavaScript string. \<open>white_space\<close> lists the
  encodings of the characters that \<open>String.prototype.trim\<close> and \<open>parseInt\<close> strip: the
  white space and the line terminators of ECMAScript (TAB, LF, VT, FF, CR, SP, U+00A0,
  U+1680, U+2000 to U+200A, U+2028, U+2029, U+202F, U+205F, U+3000 and U+FEFF).
\<close>

definition white_space :: "string list" where
  "white_space =
     [[CHR 0x09], [CHR 0x0A], [CHR 0x0B], [CHR 0x0C], [CHR 0x0D], [CHR 0x20],
      [CHR 0xC2, CHR 0xA0],
      [CHR 0xE1, CHR 0x9A, CHR 0x80],
      [CHR 0xE2, CHR 0x80, CHR 0x80], [CHR 0xE2, CHR 0x80, CHR 0x81],
      [CHR 0xE2, CHR 0x80, CHR 0x82], [CHR 0xE2, CHR 0x80, CHR 0x83],
      [CHR 0xE2, CHR 0x80, CHR 0x84], [CHR 0xE2, CHR 0x80, CHR 0x85],
      [CHR 0xE2, CHR 0x80, CHR 0x86], [CHR 0xE2, CHR 0x80, CHR 0x87],
      [CHR 0xE2, CHR 0x80, CHR 0x88], [CHR 0xE2, CHR 0x80, CHR 0x89],
      [CHR 0xE2, CHR 0x80, CHR 0x8A],
      [CHR 0xE2, CHR 0x80, CHR 0xA8], [CHR 0xE2, CHR 0x80, CHR 0xA9],
      [CHR 0xE2, CHR 0x80, CHR 0xAF],
      [CHR 0xE2, CHR 0x81, CHR 0x9F],
      [CHR 0xE3, CHR 0x80, CHR 0x80],
      [CHR 0xEF, CHR 0xBB, CHR 0xBF]]"

text \<open>
  \<open>strip seqs s\<close> removes from the front of \<open>s\<close> every leading occurrence of one of the
  sequences \<open>seqs\<close>; \<open>trim\<close> strips the white space of both ends.
\<close>

function strip :: "string list \<Rightarrow> string \<Rightarrow> string" where
  "strip seqs s =
     (case find (\<lambda>w. w \<noteq> [] \<and> take (length w) s = w) seqs of
        None \<Rightarrow> s
      | Some w \<Rightarrow> strip seqs (drop (length w) s))"
  by pat_completeness auto
termination
proof (relation "measure (\<lambda>(seqs, s). length s)")
  show "wf (measure (\<lambda>(seqs, s). length s))" by simp
next
  fix seqs :: "string list" and s w :: string
  assume "find (\<lambda>w. w \<noteq> [] \<and> take (length w) s = w) seqs = Some w"
  then have "w \<noteq> []" and "take (length w) s = w"
    by (auto simp: find_Some_iff)
  then have "s \<noteq> []" by auto
  with \<open>w \<noteq> []\<close> show "((seqs, drop (length w) s), (seqs, s)) \<in> measure (\<lambda>(seqs, s). length s)"
    by (cases w) auto
qed

declare strip.simps [simp del]

definition trim :: "string \<Rightarrow> string" where
  "trim s = rev (strip (map rev white_space) (rev (strip white_space s)))"

text \<open>\<open>!s\<close> and \<open>!s || s.trim() === ""\<close> on an optional string of the request.\<close>

definition falsy :: "string option \<Rightarrow> bool" where
  "falsy v = (case v of None \<Rightarrow> True | Some s \<Rightarrow> s = [])"

definition blank :: "string option \<Rightarrow> bool" where
  "blank v = (case v of None \<Rightarrow> True | Some s \<Rightarrow> s = [] \<or> trim s = [])"

section \<open>Documents and the store\<close>

text \<open>
  Modelled from the spec: the schemas (\<open>models/*.model.js\<close>) are not in src/. Section 3
  gives every Video, Tweet, Comment and Playlist exactly one owning Actor, every Like an
  Actor and one target, every Subscription a subscriber and a channel; so these paths
  are required, and creating a document without one raises a validation error. The
  fields kept are the ones the controllers below read or write.
\<close>

record user =
  user_id :: oid
  username :: string
  fullName :: string
  email :: string
  avatar :: string
  coverImage :: string

record video =
  video_id :: oid
  video_owner :: oid
  title :: string
  description :: string
  thumbnail :: string
  views :: nat
  isPublished :: bool

record comment =
  comment_id :: oid
  content :: string
  comment_video :: oid
  comment_owner :: oid
  comment_createdAt :: nat

record tweet =
  tweet_id :: oid
  tweet_content :: string
  tweet_owner :: oid
  tweet_createdAt :: nat

record like =
  like_id :: oid
  like_video :: "oid option"
  like_comment :: "oid option"
  like_tweet :: "oid option"
  likedBy :: oid

record subscription =
  subscription_id :: oid
  subscriber :: oid
  channel :: oid

record playlist =
  playlist_id :: oid
  playlist_name :: string
  playlist_description :: string
  playlist_owner :: oid
  playlist_videos :: "oid list"

text \<open>
  The collections of the database, each in insertion order, the local files the upload
  middleware has written (\<open>files\<close>), and the calls made so far to the media host and
  to \<open>fs.unlinkSync\<close> (\<open>calls\<close>, oldest first).
\<close>

datatype call = Upload string | Unlink string

record store =
  users :: "user list"
  videos :: "video list"
  comments :: "comment list"
  tweets :: "tweet list"
  likes :: "like list"
  subscriptions :: "subscription list"
  playlists :: "playlist list"
  files :: "string set"
  calls :: "call list"

text \<open>
  \<open>Model.findById\<close>, \<open>Model.findByIdAndDelete\<close> and \<open>Model.countDocuments\<close>. The
  \<open>_id\<close> is the primary key of a collection, so removing the documents with a given
  \<open>_id\<close> removes at most one.
\<close>

definition findById :: "('a \<Rightarrow> oid) \<Rightarrow> oid \<Rightarrow> 'a list \<Rightarrow> 'a option" where
  "findById ident i docs = find (\<lambda>d. ident d = i) docs"

definition findByIdAndDelete :: "('a \<Rightarrow> oid) \<Rightarrow> oid \<Rightarrow> 'a list \<Rightarrow> 'a list" where
  "findByIdAndDelete ident i docs = filter (\<lambda>d. ident d \<noteq> i) docs"

definition countDocuments :: "('a \<Rightarrow> bool) \<Rightarrow> 'a list \<Rightarrow> nat" where
  "countDocuments q docs = length (filter q docs)"

section \<open>Likes (like.controllers.js)\<close>

record like_data =
  target :: string
  liked :: bool
  likeCount :: nat

text \<open>
  A handler that writes takes \<open>req.user?._id\<close> (\<open>actor\<close>), the route parameter, the
  fields of the request body and the store, and returns what it throws or sends together
  with the store it leaves; a handler that creates a document also takes the \<open>_id\<close> the
  driver generates for it (\<open>nid\<close>). A handler that only reads returns what it throws or
  sends. The checks of the form \<open>if (!created)\<close> or \<open>if (!deletionResult)\<close> that follow a
  write of a document found a line earlier cannot fire and have no branch here.
\<close>

definition toggleVideoLike ::
  "oid \<Rightarrow> oid option \<Rightarrow> string \<Rightarrow> store \<Rightarrow> (error + like_data response) \<times> store" where
  "toggleVideoLike nid actor videoId st =
     (if \<not> isValid videoId then (Inl (ApiError 400 ''Invalid video ID format''), st)
      else case findById video_id (ObjectId videoId) (videos st) of
        None \<Rightarrow> (Inl (ApiError 404 ''Video not found''), st)
      | Some v \<Rightarrow>
          if \<not> isPublished v then (Inl (ApiError 403 ''Cannot like an unpublished video''), st)
          else
            (case find (\<lambda>l. like_video l = Some (ObjectId videoId) \<and> Some (likedBy l) = actor)
                    (likes st) of
              Some existingLike \<Rightarrow>
                (let st' = st\<lparr>likes := findByIdAndDelete like_id (like_id existingLike) (likes st)\<rparr>
                 in (Inr (ApiResponse 200
                       \<lparr>target = videoId, liked = False,
                        likeCount = countDocuments (\<lambda>l. like_video l = Some (ObjectId videoId)) (likes st')\<rparr>
                       ''Video unliked successfully''), st'))
            | None \<Rightarrow>
                (case actor of
                  None \<Rightarrow> (Inl ValidationError, st)
                | Some userId \<Rightarrow>
                    (let st' = st\<lparr>likes := likes st @
                           [\<lparr>like_id = nid, like_video = Some (ObjectId videoId),
                             like_comment = None, like_tweet = None, likedBy = userId\<rparr>]\<rparr>
                     in (Inr (ApiResponse 200
                           \<lparr>target = videoId, liked = True,
                            likeCount = countDocuments (\<lambda>l. like_video l = Some (ObjectId videoId)) (likes st')\<rparr>
                           ''Video liked successfully''), st')))))"

definition toggleCommentLike ::
  "oid \<Rightarrow> oid option \<Rightarrow> string \<Rightarrow> store \<Rightarrow> (error + like_data response) \<times> store" where
  "toggleCommentLike nid actor commentId st =
     (if \<not> isValid commentId then (Inl (ApiError 400 ''Invalid comment ID format''), st)
      else case findById comment_id (ObjectId commentId) (comments st) of
        None \<Rightarrow> (Inl (ApiError 404 ''Comment not found''), st)
      | Some c \<Rightarrow>
          (case find (\<lambda>l. like_comment l = Some (ObjectId commentId) \<and> Some (likedBy l) = actor)
                  (likes st) of
            Some existingLike \<Rightarrow>
              (let st' = st\<lparr>likes := findByIdAndDelete like_id (like_id existingLike) (likes st)\<rparr>
               in (Inr (ApiResponse 200
                     \<lparr>target = commentId, liked = False,
                      likeCount = countDocuments (\<lambda>l. like_comment l = Some (ObjectId commentId)) (likes st')\<rparr>
                     ''Comment unliked successfully''), st'))
          | None \<Rightarrow>
              (case actor of
                None \<Rightarrow> (Inl ValidationError, st)
              | Some userId \<Rightarrow>
                  (let st' = st\<lparr>likes := likes st @
                         [\<lparr>like_id = nid, like_video = None,
                           like_comment = Some (ObjectId commentId), like_tweet = None,
                           likedBy = userId\<rparr>]\<rparr>
                   in (Inr (ApiResponse 200
                         \<lparr>target = commentId, liked = True,
                          likeCount = countDocuments (\<lambda>l. like_comment l = Some (ObjectId commentId)) (likes st')\<rparr>
                         ''Comment liked successfully''), st')))))"

definition toggleTweetLike ::
  "oid \<Rightarrow> oid option \<Rightarrow> string \<Rightarrow> store \<Rightarrow> (error + like_data response) \<times> store" where
  "toggleTweetLike nid actor tweetId st =
     (if \<not> isValid tweetId then (Inl (ApiError 400 ''Invalid tweet ID format''), st)
      else case findById tweet_id (ObjectId tweetId) (tweets st) of
        None \<Rightarrow> (Inl (ApiError 404 ''Tweet not found''), st)
      | Some t \<Rightarrow>
          (case find (\<lambda>l. like_tweet l = Some (ObjectId tweetId) \<and> Some (likedBy l) = actor)
                  (likes st) of
            Some existingLike \<Rightarrow>
              (let st' = st\<lparr>likes := findByIdAndDelete like_id (like_id existingLike) (likes st)\<rparr>
               in (Inr (ApiResponse 200
                     \<lparr>target = tweetId, liked = False,
                      likeCount = countDocuments (\<lambda>l. like_tweet l = Some (ObjectId tweetId)) (likes st')\<rparr>
                     ''Tweet unliked successfully''), st'))
          | None \<Rightarrow>
              (case actor of
                None \<Rightarrow> (Inl ValidationError, st)
              | Some userId \<Rightarrow>
                  (let st' = st\<lparr>likes := likes st @
                         [\<lparr>like_id = nid, like_video = None, like_comment = None,
                           like_tweet = Some (ObjectId tweetId), likedBy = userId\<rparr>]\<rparr>
                   in (Inr (ApiResponse 200
                         \<lparr>target = tweetId, liked = True,
                          likeCount = countDocuments (\<lambda>l. like_tweet l = Some (ObjectId tweetId)) (likes st')\<rparr>
                         ''Tweet liked successfully''), st')))))"

section \<open>Subscriptions (subscription.controllers.js)\<close>

record subscription_data =
  channelId :: string
  subscribed :: bool
  subscriberCount :: nat

text \<open>
  \<open>channelId.toString() === subscriberId.toString()\<close> compares the raw route parameter
  with the print of the actor's \<open>ObjectId\<close>; \<open>subscriberId.toString()\<close> on an absent
  actor is a \<open>TypeError\<close>.
\<close>

definition toggleSubscription ::
  "oid \<Rightarrow> oid option \<Rightarrow> string \<Rightarrow> store \<Rightarrow> (error + subscription_data response) \<times> store" where
  "toggleSubscription nid actor chanId st =
     (if \<not> isValid chanId then (Inl (ApiError 400 ''Invalid channel ID format''), st)
      else case actor of
        None \<Rightarrow> (Inl TypeError, st)
      | Some subscriberId \<Rightarrow>
          if chanId = subscriberId
          then (Inl (ApiError 400 ''Users cannot subscribe to their own channel''), st)
          else
            (case findById user_id (ObjectId chanId) (users st) of
              None \<Rightarrow> (Inl (ApiError 404 ''Channel (user) not found''), st)
            | Some ch \<Rightarrow>
                (case find (\<lambda>s. subscriber s = subscriberId \<and> channel s = ObjectId chanId)
                        (subscriptions st) of
                  Some existingSubscription \<Rightarrow>
                    (let st' = st\<lparr>subscriptions :=
                           findByIdAndDelete subscription_id
                             (subscription_id existingSubscription) (subscriptions st)\<rparr>
                     in (Inr (ApiResponse 200
                           \<lparr>channelId = chanId, subscribed = False,
                            subscriberCount =
                              countDocuments (\<lambda>s. channel s = ObjectId chanId) (subscriptions st')\<rparr>
                           ''Unsubscribed successfully''), st'))
                | None \<Rightarrow>
                    (let st' = st\<lparr>subscriptions := subscriptions st @
                           [\<lparr>subscription_id = nid, subscriber = subscriberId,
                             channel = ObjectId chanId\<rparr>]\<rparr>
                     in (Inr (ApiResponse 200
                           \<lparr>channelId = chanId, subscribed = True,
                            subscriberCount =
                              countDocuments (\<lambda>s. channel s = ObjectId chanId) (subscriptions st')\<rparr>
                           ''Subscribed successfully''), st')))))"

section \<open>The media-upload wrapper (utils/cloudinary.js)\<close>

record resource =
  url :: string
  duration :: nat

text \<open>
  \<open>cloud\<close> stands for \<open>cloudinary.uploader.upload\<close>: the resources it resolves to for a
  path, or \<open>None\<close> when it rejects. \<open>fs.unlinkSync\<close> throws for a path that does not
  exist; inside the \<open>try\<close> block that lands in the \<open>catch\<close> block, whose own unlink is
  guarded by \<open>fs.existsSync\<close>.
\<close>

definition catch_block :: "string \<Rightarrow> store \<Rightarrow> resource option \<times> store" where
  "catch_block localFilePath st =
     (if localFilePath \<noteq> [] \<and> localFilePath \<in> files st
      then (None, st\<lparr>files := files st - {localFilePath},
                      calls := calls st @ [Unlink localFilePath]\<rparr>)
      else (None, st))"

definition uploadOnCloudinary ::
  "(string \<Rightarrow> resource option) \<Rightarrow> string option \<Rightarrow> store \<Rightarrow> resource option \<times> store" where
  "uploadOnCloudinary cloud localFilePath st =
     (case localFilePath of
        None \<Rightarrow> (None, st)
      | Some p \<Rightarrow>
          if p = [] then (None, st)
          else
            (let st1 = st\<lparr>calls := calls st @ [Upload p]\<rparr> in
             case cloud p of
               None \<Rightarrow> catch_block p st1
             | Some resources \<Rightarrow>
                 if p \<in> files st1
                 then (Some resources,
                       st1\<lparr>files := files st1 - {p}, calls := calls st1 @ [Unlink p]\<rparr>)
                 else catch_block p st1))"

section \<open>Comments (comment.controllers.js)\<close>

record owner_details =
  od_id :: oid
  od_username :: string
  od_avatar :: string
  od_fullName :: string

definition project_owner :: "user \<Rightarrow> owner_details" where
  "project_owner u =
     \<lparr>od_id = user_id u, od_username = username u, od_avatar = avatar u,
      od_fullName = fullName u\<rparr>"

record populated_comment =
  pc_comment :: comment
  pc_owner :: "owner_details option"

text \<open>\<open>Comment.findById(id).populate("owner", "username avatar fullName")\<close>.\<close>

definition findById_populated :: "oid \<Rightarrow> store \<Rightarrow> populated_comment option" where
  "findById_populated i st =
     map_option
       (\<lambda>c. \<lparr>pc_comment = c,
              pc_owner = map_option project_owner (findById user_id (comment_owner c) (users st))\<rparr>)
       (findById comment_id i (comments st))"

text \<open>\<open>doc.save()\<close>: the stored document with the same \<open>_id\<close> is replaced.\<close>

definition save :: "('a \<Rightarrow> oid) \<Rightarrow> 'a \<Rightarrow> 'a list \<Rightarrow> 'a list" where
  "save ident d docs = map (\<lambda>x. if ident x = ident d then d else x) docs"

text \<open>\<open>now\<close> is the clock reading that \<open>timestamps\<close> writes into \<open>createdAt\<close>.\<close>

definition addComment ::
  "oid \<Rightarrow> nat \<Rightarrow> oid option \<Rightarrow> string \<Rightarrow> string option \<Rightarrow> store
     \<Rightarrow> (error + populated_comment option response) \<times> store" where
  "addComment nid now actor videoId body_content st =
     (if \<not> isValid videoId then (Inl (ApiError 400 ''Invalid video ID format''), st)
      else if blank body_content
      then (Inl (ApiError 400 ''Comment content cannot be empty''), st)
      else case findById video_id (ObjectId videoId) (videos st) of
        None \<Rightarrow> (Inl (ApiError 404 ''Video not found, cannot add comment''), st)
      | Some v \<Rightarrow>
          if \<not> isPublished v
          then (Inl (ApiError 403 ''Cannot comment on an unpublished video''), st)
          else
            (case actor of
              None \<Rightarrow> (Inl ValidationError, st)
            | Some userId \<Rightarrow>
                (let st' = st\<lparr>comments := comments st @
                       [\<lparr>comment_id = nid, content = the body_content,
                         comment_video = ObjectId videoId, comment_owner = userId,
                         comment_createdAt = now\<rparr>]\<rparr>
                 in (Inr (ApiResponse 201 (findById_populated nid st')
                       ''Comment added successfully''), st'))))"

definition updateComment ::
  "oid option \<Rightarrow> string \<Rightarrow> string option \<Rightarrow> store
     \<Rightarrow> (error + populated_comment option response) \<times> store" where
  "updateComment actor commentId body_content st =
     (if \<not> isValid commentId then (Inl (ApiError 400 ''Invalid comment ID format''), st)
      else if blank body_content
      then (Inl (ApiError 400 ''Comment content cannot be empty''), st)
      else case findById comment_id (ObjectId commentId) (comments st) of
        None \<Rightarrow> (Inl (ApiError 404 ''Comment not found''), st)
      | Some c \<Rightarrow>
          if Some (comment_owner c) \<noteq> actor
          then (Inl (ApiError 403 ''You are not authorized to update this comment''), st)
          else
            (let st' = st\<lparr>comments :=
                   save comment_id (c\<lparr>content := the body_content\<rparr>) (comments st)\<rparr>
             in (Inr (ApiResponse 200 (findById_populated (comment_id c) st')
                   ''Comment updated successfully''), st')))"

definition deleteComment ::
  "oid option \<Rightarrow> string \<Rightarrow> store \<Rightarrow> (error + string response) \<times> store" where
  "deleteComment actor commentId st =
     (if \<not> isValid commentId then (Inl (ApiError 400 ''Invalid comment ID format''), st)
      else case findById comment_id (ObjectId commentId) (comments st) of
        None \<Rightarrow> (Inl (ApiError 404 ''Comment not found''), st)
      | Some c \<Rightarrow>
          if Some (comment_owner c) \<noteq> actor \<and>
             (case findById video_id (comment_video c) (videos st) of
                None \<Rightarrow> True
              | Some videoOfComment \<Rightarrow> Some (video_owner videoOfComment) \<noteq> actor)
          then (Inl (ApiError 403 ''You are not authorized to delete this comment''), st)
          else
            (let st' = st\<lparr>comments :=
                   findByIdAndDelete comment_id (ObjectId commentId) (comments st)\<rparr>
             in (Inr (ApiResponse 200 commentId ''Comment deleted successfully''), st')))"

section \<open>Videos (video.controllers.js)\<close>

text \<open>
  \<open>Model.findByIdAndUpdate(id, {$set: ..}, {new: true})\<close>: the update is applied to the
  stored document with that \<open>_id\<close>, and the updated document (or \<open>null\<close>) is returned.
\<close>

definition findByIdAndUpdate ::
  "('a \<Rightarrow> oid) \<Rightarrow> oid \<Rightarrow> ('a \<Rightarrow> 'a) \<Rightarrow> 'a list \<Rightarrow> 'a option \<times> 'a list" where
  "findByIdAndUpdate ident i f docs =
     (map_option f (findById ident i docs), map (\<lambda>x. if ident x = i then f x else x) docs)"

text \<open>The updated video as \<open>.select("-owner")\<close> returns it.\<close>

record video_fields =
  vf_id :: oid
  vf_title :: string
  vf_description :: string
  vf_thumbnail :: string
  vf_isPublished :: bool

definition select_without_owner :: "video \<Rightarrow> video_fields" where
  "select_without_owner v =
     \<lparr>vf_id = video_id v, vf_title = title v, vf_description = description v,
      vf_thumbnail = thumbnail v, vf_isPublished = isPublished v\<rparr>"

definition updateVideo ::
  "(string \<Rightarrow> resource option) \<Rightarrow> oid option \<Rightarrow> string \<Rightarrow> string option \<Rightarrow> string option
     \<Rightarrow> string option \<Rightarrow> store \<Rightarrow> (error + video_fields response) \<times> store" where
  "updateVideo cloud actor videoId body_title body_description thumbnailLocalPath st =
     (if \<not> isValid videoId then (Inl (ApiError 400 ''Invalid video ID format''), st)
      else if falsy body_title \<and> falsy body_description \<and> falsy thumbnailLocalPath
      then (Inl (ApiError 400
              ''At least one field (title, description, or thumbnail) must be provided for update.''),
            st)
      else case findById video_id (ObjectId videoId) (videos st) of
        None \<Rightarrow> (Inl (ApiError 404 ''Video not found''), st)
      | Some v \<Rightarrow>
          if Some (video_owner v) \<noteq> actor
          then (Inl (ApiError 403 ''You are not authorized to update this video''), st)
          else
            (let set_title = (\<lambda>d. if \<not> blank body_title then d\<lparr>title := the body_title\<rparr> else d);
                 set_description =
                   (\<lambda>d. if \<not> blank body_description
                        then d\<lparr>description := the body_description\<rparr> else d)
             in if \<not> falsy thumbnailLocalPath
                then
                  (case uploadOnCloudinary cloud thumbnailLocalPath st of
                    (None, st1) \<Rightarrow>
                      (Inl (ApiError 500 ''Error uploading new thumbnail to Cloudinary''), st1)
                  | (Some thumbnailUploadResult, st1) \<Rightarrow>
                      if url thumbnailUploadResult = []
                      then (Inl (ApiError 500 ''Error uploading new thumbnail to Cloudinary''), st1)
                      else
                        (case findByIdAndUpdate video_id (ObjectId videoId)
                                (\<lambda>d. (set_description (set_title d))
                                        \<lparr>thumbnail := url thumbnailUploadResult\<rparr>)
                                (videos st1) of
                          (None, vs) \<Rightarrow>
                            (Inl (ApiError 500
                               ''Something went wrong while updating the video details''),
                             st1\<lparr>videos := vs\<rparr>)
                        | (Some updatedVideo, vs) \<Rightarrow>
                            (Inr (ApiResponse 200 (select_without_owner updatedVideo)
                               ''Video details updated successfully''),
                             st1\<lparr>videos := vs\<rparr>)))
                else
                  (case findByIdAndUpdate video_id (ObjectId videoId)
                          (\<lambda>d. set_description (set_title d)) (videos st) of
                    (None, vs) \<Rightarrow>
                      (Inl (ApiError 500 ''Something went wrong while updating the video details''),
                       st\<lparr>videos := vs\<rparr>)
                  | (Some updatedVideo, vs) \<Rightarrow>
                      (Inr (ApiResponse 200 (select_without_owner updatedVideo)
                         ''Video details updated successfully''),
                       st\<lparr>videos := vs\<rparr>))))"

definition deleteVideo ::
  "oid option \<Rightarrow> string \<Rightarrow> store \<Rightarrow> (error + string response) \<times> store" where
  "deleteVideo actor videoId st =
     (if \<not> isValid videoId then (Inl (ApiError 400 ''Invalid video ID format''), st)
      else case findById video_id (ObjectId videoId) (videos st) of
        None \<Rightarrow> (Inl (ApiError 404 ''Video not found''), st)
      | Some v \<Rightarrow>
          if Some (video_owner v) \<noteq> actor
          then (Inl (ApiError 403 ''You are not authorized to delete this video''), st)
          else
            (let st' = st\<lparr>videos := findByIdAndDelete video_id (ObjectId videoId) (videos st)\<rparr>
             in (Inr (ApiResponse 200 videoId ''Video deleted successfully''), st')))"

record publish_data =
  pd_videoId :: oid
  pd_isPublished :: bool

definition togglePublishStatus ::
  "oid option \<Rightarrow> string \<Rightarrow> store \<Rightarrow> (error + publish_data response) \<times> store" where
  "togglePublishStatus actor videoId st =
     (if \<not> isValid videoId then (Inl (ApiError 400 ''Invalid video ID format''), st)
      else case findById video_id (ObjectId videoId) (videos st) of
        None \<Rightarrow> (Inl (ApiError 404 ''Video not found''), st)
      | Some v \<Rightarrow>
          if Some (video_owner v) \<noteq> actor
          then (Inl (ApiError 403
                  ''You are not authorized to change the publish status of this video''), st)
          else
            (let toggled = v\<lparr>isPublished := \<not> isPublished v\<rparr>;
                 st' = st\<lparr>videos := save video_id toggled (videos st)\<rparr>
             in (Inr (ApiResponse 200
                   \<lparr>pd_videoId = video_id toggled, pd_isPublished = isPublished toggled\<rparr>
                   ''Video publish status toggled successfully''), st')))"

section \<open>Tweets (tweet.controllers.js)\<close>

definition updateTweet ::
  "oid option \<Rightarrow> string \<Rightarrow> string option \<Rightarrow> store \<Rightarrow> (error + tweet response) \<times> store" where
  "updateTweet actor tweetId body_content st =
     (if \<not> isValid tweetId then (Inl (ApiError 400 ''Invalid tweet ID format''), st)
      else if blank body_content
      then (Inl (ApiError 400 ''Tweet content cannot be empty''), st)
      else case findById tweet_id (ObjectId tweetId) (tweets st) of
        None \<Rightarrow> (Inl (ApiError 404 ''Tweet not found''), st)
      | Some t \<Rightarrow>
          if Some (tweet_owner t) \<noteq> actor
          then (Inl (ApiError 403 ''You are not authorized to update this tweet''), st)
          else
            (let updatedTweet = t\<lparr>tweet_content := the body_content\<rparr>;
                 st' = st\<lparr>tweets := save tweet_id updatedTweet (tweets st)\<rparr>
             in (Inr (ApiResponse 200 updatedTweet ''Tweet updated successfully''), st')))"

definition deleteTweet ::
  "oid option \<Rightarrow> string \<Rightarrow> store \<Rightarrow> (error + string response) \<times> store" where
  "deleteTweet actor tweetId st =
     (if \<not> isValid tweetId then (Inl (ApiError 400 ''Invalid tweet ID format''), st)
      else case findById tweet_id (ObjectId tweetId) (tweets st) of
        None \<Rightarrow> (Inl (ApiError 404 ''Tweet not found''), st)
      | Some t \<Rightarrow>
          if Some (tweet_owner t) \<noteq> actor
          then (Inl (ApiError 403 ''You are not authorized to delete this tweet''), st)
          else
            (let st' = st\<lparr>tweets := findByIdAndDelete tweet_id (ObjectId tweetId) (tweets st)\<rparr>
             in (Inr (ApiResponse 200 tweetId ''Tweet deleted successfully''), st')))"

section \<open>Playlists (playlist.controllers.js)\<close>

text \<open>
  Here the comparison is \<open>playlist.owner.toString() !== userId.toString()\<close> with
  \<open>userId = req.user?._id\<close>: on an absent actor \<open>userId.toString()\<close> is a \<open>TypeError\<close>.
\<close>

definition deletePlaylist ::
  "oid option \<Rightarrow> string \<Rightarrow> store \<Rightarrow> (error + string response) \<times> store" where
  "deletePlaylist actor playlistId st =
     (if \<not> isValid playlistId then (Inl (ApiError 400 ''Invalid playlist ID format''), st)
      else case findById playlist_id (ObjectId playlistId) (playlists st) of
        None \<Rightarrow> (Inl (ApiError 404 ''Playlist not found''), st)
      | Some p \<Rightarrow>
          (case actor of
            None \<Rightarrow> (Inl TypeError, st)
          | Some userId \<Rightarrow>
              if playlist_owner p \<noteq> userId
              then (Inl (ApiError 403 ''You are not authorized to delete this playlist''), st)
              else
                (let st' = st\<lparr>playlists :=
                       findByIdAndDelete playlist_id (ObjectId playlistId) (playlists st)\<rparr>
                 in (Inr (ApiResponse 200 playlistId ''Playlist deleted successfully''), st'))))"

definition updatePlaylist ::
  "oid option \<Rightarrow> string \<Rightarrow> string option \<Rightarrow> string option \<Rightarrow> store
     \<Rightarrow> (error + playlist response) \<times> store" where
  "updatePlaylist actor playlistId body_name body_description st =
     (if \<not> isValid playlistId then (Inl (ApiError 400 ''Invalid playlist ID format''), st)
      else if blank body_name \<and> blank body_description
      then (Inl (ApiError 400
              ''Either name or description must be provided to update the playlist''), st)
      else case findById playlist_id (ObjectId playlistId) (playlists st) of
        None \<Rightarrow> (Inl (ApiError 404 ''Playlist not found''), st)
      | Some p \<Rightarrow>
          (case actor of
            None \<Rightarrow> (Inl TypeError, st)
          | Some userId \<Rightarrow>
              if playlist_owner p \<noteq> userId
              then (Inl (ApiError 403 ''You are not authorized to update this playlist''), st)
              else
                (case findByIdAndUpdate playlist_id (ObjectId playlistId)
                        (\<lambda>d. (if \<not> blank body_name then d\<lparr>playlist_name := the body_name\<rparr> else d)
                               \<lparr>playlist_description :=
                                  (case body_description of
                                     None \<Rightarrow> playlist_description d
                                   | Some s \<Rightarrow> s)\<rparr>)
                        (playlists st) of
                  (None, ps) \<Rightarrow>
                    (Inl (ApiError 500 ''Something went wrong while updating the playlist''),
                     st\<lparr>playlists := ps\<rparr>)
                | (Some updatedPlaylist, ps) \<Rightarrow>
                    (Inr (ApiResponse 200 updatedPlaylist ''Playlist updated successfully''),
                     st\<lparr>playlists := ps\<rparr>))))"

text \<open>
  \<open>playlist.videos.includes(videoId)\<close> and \<open>playlist.videos.indexOf(videoId)\<close> compare the
  route parameter with the prints of the stored ids; \<open>push\<close> and \<open>pull\<close> cast it to an
  \<open>ObjectId\<close>.
\<close>

definition addVideoToPlaylist ::
  "oid option \<Rightarrow> string \<Rightarrow> string \<Rightarrow> store \<Rightarrow> (error + playlist response) \<times> store" where
  "addVideoToPlaylist actor playlistId videoId st =
     (if \<not> isValid playlistId \<or> \<not> isValid videoId
      then (Inl (ApiError 400 ''Invalid Playlist or Video ID format''), st)
      else case findById playlist_id (ObjectId playlistId) (playlists st) of
        None \<Rightarrow> (Inl (ApiError 404 ''Playlist not found''), st)
      | Some p \<Rightarrow>
          (case actor of
            None \<Rightarrow> (Inl TypeError, st)
          | Some userId \<Rightarrow>
              if playlist_owner p \<noteq> userId
              then (Inl (ApiError 403 ''You are not authorized to add videos to this playlist''),
                    st)
              else
                (case findById video_id (ObjectId videoId) (videos st) of
                  None \<Rightarrow> (Inl (ApiError 404 ''Video not found''), st)
                | Some v \<Rightarrow>
                    if \<not> isPublished v
                    then (Inl (ApiError 400 ''Cannot add an unpublished video to playlist''), st)
                    else if videoId \<in> set (playlist_videos p)
                    then (Inl (ApiError 400 ''Video already exists in this playlist''), st)
                    else
                      (let updatedPlaylist =
                             p\<lparr>playlist_videos := playlist_videos p @ [ObjectId videoId]\<rparr>;
                           st' = st\<lparr>playlists := save playlist_id updatedPlaylist (playlists st)\<rparr>
                       in (Inr (ApiResponse 200 updatedPlaylist
                             ''Video added to playlist successfully''), st')))))"

definition removeVideoFromPlaylist ::
  "oid option \<Rightarrow> string \<Rightarrow> string \<Rightarrow> store \<Rightarrow> (error + playlist response) \<times> store" where
  "removeVideoFromPlaylist actor playlistId videoId st =
     (if \<not> isValid playlistId \<or> \<not> isValid videoId
      then (Inl (ApiError 400 ''Invalid Playlist or Video ID format''), st)
      else case findById playlist_id (ObjectId playlistId) (playlists st) of
        None \<Rightarrow> (Inl (ApiError 404 ''Playlist not found''), st)
      | Some p \<Rightarrow>
          (case actor of
            None \<Rightarrow> (Inl TypeError, st)
          | Some userId \<Rightarrow>
              if playlist_owner p \<noteq> userId
              then (Inl (ApiError 403
                      ''You are not authorized to remove videos from this playlist''), st)
              else if videoId \<notin> set (playlist_videos p)
              then (Inl (ApiError 404 ''Video not found in this playlist''), st)
              else
                (let updatedPlaylist =
                       p\<lparr>playlist_videos :=
                            filter (\<lambda>x. x \<noteq> ObjectId videoId) (playlist_videos p)\<rparr>;
                     st' = st\<lparr>playlists := save playlist_id updatedPlaylist (playlists st)\<rparr>
                 in (Inr (ApiResponse 200 updatedPlaylist
                       ''Video removed from playlist successfully''), st'))))"

section \<open>Paginated listings\<close>

subsection \<open>Request parameters\<close>

text \<open>
  A JavaScript number, as far as \<open>parseInt\<close> can return one: \<open>NaN\<close>, an integer that a
  double represents (\<open>-0\<close> and \<open>0\<close> are both \<open>Finite 0\<close>), or an infinity.
\<close>

datatype number = NaN | Finite int | PosInfinity | NegInfinity

text \<open>
  \<open>to_double n\<close> is the double nearest to the natural number \<open>n\<close>, ties going to the even
  significand of 53 bits, or nothing when that is beyond the largest double.
\<close>

fun bit_length :: "nat \<Rightarrow> nat" where
  "bit_length n = (if n = 0 then 0 else Suc (bit_length (n div 2)))"

declare bit_length.simps [simp del]

definition to_double :: "nat \<Rightarrow> nat option" where
  "to_double n =
     (if n < 2 ^ 53 then Some n
      else
        (let shift = bit_length n - 53;
             q = n div 2 ^ shift;
             r = n mod 2 ^ shift;
             half = 2 ^ (shift - 1);
             q' = (if half < r \<or> (r = half \<and> odd q) then q + 1 else q)
         in if 2 ^ 1024 \<le> q' * 2 ^ shift then None else Some (q' * 2 ^ shift)))"

text \<open>
  \<open>parseInt(s, 10)\<close>: leading white space is stripped, one sign is read, and the longest
  run of decimal digits that follows is the numeral; without a digit the result is \<open>NaN\<close>,
  otherwise the double nearest to the signed value of the numeral. (For a numeral of more
  than twenty digits ECMAScript lets an engine round the digits after the twentieth
  first; the exact conversion is the one modelled.)
\<close>

definition digit :: "char \<Rightarrow> bool" where
  "digit c = (c \<in> set ''0123456789'')"

definition digits_value :: "string \<Rightarrow> nat" where
  "digits_value ds = foldl (\<lambda>n c. 10 * n + (of_char c - 48)) 0 ds"

definition parseInt :: "string \<Rightarrow> number" where
  "parseInt s =
     (let t = strip white_space s;
          negative = (t \<noteq> [] \<and> hd t = CHR ''-'');
          u = (if t \<noteq> [] \<and> (hd t = CHR ''-'' \<or> hd t = CHR ''+'') then tl t else t);
          z = takeWhile digit u
      in if z = [] then NaN
         else case to_double (digits_value z) of
                None \<Rightarrow> if negative then NegInfinity else PosInfinity
              | Some v \<Rightarrow> Finite (if negative then - int v else int v))"

text \<open>
  \<open>const { page = 1, limit = 10 } = req.query\<close> followed by
  \<open>options = { page: parseInt(page, 10), limit: parseInt(limit, 10), .. }\<close>: the
  default applies to a parameter that is absent, and \<open>parseInt\<close> reads the number 1 or 10
  through its print.
\<close>

definition listing_options :: "string option \<Rightarrow> string option \<Rightarrow> number \<times> number" where
  "listing_options query_page query_limit =
     (parseInt (case query_page of None \<Rightarrow> ''1'' | Some s \<Rightarrow> s),
      parseInt (case query_limit of None \<Rightarrow> ''10'' | Some s \<Rightarrow> s))"

subsection \<open>The paginate plugin\<close>

text \<open>
  \<open>Model.aggregatePaginate\<close> comes from a plugin that the schemas install. It is not in
  src/, so the controllers below take it as a parameter: a function from the ordered
  result of the aggregate and the options to the result object, or to \<open>null\<close>.
\<close>

text \<open>
  Modelled from the spec: the result object of the plugin, which is not in src/. Section
  4.2 lists the item array, the total count, the number of pages, the current page and the
  two flags.
\<close>

record 'a paginated =
  items :: "'a list"
  totalItems :: nat
  totalPages :: nat
  currentPage :: nat
  hasNextPage :: bool
  hasPrevPage :: bool

type_synonym 'a paginator = "'a list \<Rightarrow> number \<times> number \<Rightarrow> 'a paginated option"

text \<open>
  Modelled from the spec: a plugin (none is in src/) that follows the contract of section
  4.2: page and limit are coerced to positive integers, an invalid or missing value becomes
  page 1 or limit 10, and a page beyond the last one has no items and no next page. It
  serves as the plugin of the concrete checks.
\<close>

fun positive_or :: "nat \<Rightarrow> number \<Rightarrow> nat" where
  "positive_or d (Finite i) = (if 1 \<le> i then nat i else d)"
| "positive_or d NaN = d"
| "positive_or d PosInfinity = d"
| "positive_or d NegInfinity = d"

definition aggregatePaginate :: "'a paginator" where
  "aggregatePaginate orderedSequence options =
     (let p = positive_or 1 (fst options);
          l = positive_or 10 (snd options);
          n = length orderedSequence
      in Some \<lparr>items = take l (drop ((p - 1) * l) orderedSequence),
               totalItems = n,
               totalPages = (n + l - 1) div l,
               currentPage = p,
               hasNextPage = (p * l < n),
               hasPrevPage = (1 < p)\<rparr>)"

text \<open>
  What the theorems below ask of a plugin: for a page and a limit that are positive
  integers, the items of the result are that window of the ordered sequence.
\<close>

definition windows :: "'a paginator \<Rightarrow> bool" where
  "windows paginate =
     (\<forall>xs p l. 1 \<le> p \<and> 1 \<le> l \<longrightarrow>
        (\<exists>r. paginate xs (Finite p, Finite l) = Some r \<and>
             items r = take (nat l) (drop ((nat p - 1) * nat l) xs)))"

subsection \<open>The response of a listing\<close>

text \<open>
  The data of a listing response is either a bare array or an object; an object is the
  list of its fields. \<open>render\<close> is the plugin's result under the labels the controller
  passes in \<open>customLabels\<close> (\<open>docs\<close> and \<open>totalDocs\<close>).
\<close>

datatype 'a jval = JNull | JBool bool | JNum nat | JDocs "'a list"

datatype 'a listing_data = Arr "'a list" | Obj "(string \<times> 'a jval) list"

fun field :: "string \<Rightarrow> 'a listing_data \<Rightarrow> 'a jval option" where
  "field k (Arr xs) = None"
| "field k (Obj kvs) = map_of kvs k"

definition render :: "string \<times> string \<Rightarrow> 'a paginated \<Rightarrow> 'a listing_data" where
  "render labels r =
     Obj [(fst labels, JDocs (items r)), (snd labels, JNum (totalItems r)),
          (''totalPages'', JNum (totalPages r)), (''page'', JNum (currentPage r)),
          (''hasNextPage'', JBool (hasNextPage r)), (''hasPrevPage'', JBool (hasPrevPage r))]"

text \<open>
  Every listing controller ends with the same three returns, which differ in the label
  of the item array and in the messages only:
  \<^verbatim>\<open>if (!r || r.docs.length === 0 && parseInt(page, 10) > 1) return 200 {docs: [], nextPage: null}\<close>,
  \<^verbatim>\<open>if (!r || r.docs.length === 0) return 200 []\<close>, and the plugin's result otherwise.
\<close>

record listing_messages =
  no_more :: string
  none_found :: string
  fetched :: string

text \<open>\<open>n > 1\<close> on a number; a comparison with \<open>NaN\<close> is false.\<close>

fun greater_than_one :: "number \<Rightarrow> bool" where
  "greater_than_one (Finite i) = (1 < i)"
| "greater_than_one PosInfinity = True"
| "greater_than_one NaN = False"
| "greater_than_one NegInfinity = False"

definition listing_reply ::
  "string \<times> string \<Rightarrow> listing_messages \<Rightarrow> 'a paginated option \<Rightarrow> number
     \<Rightarrow> 'a listing_data response" where
  "listing_reply labels msgs result parsed_page =
     (case result of
        None \<Rightarrow> ApiResponse 200 (Obj [(fst labels, JDocs []), (''nextPage'', JNull)]) (no_more msgs)
      | Some r \<Rightarrow>
          if items r = [] \<and> greater_than_one parsed_page
          then ApiResponse 200 (Obj [(fst labels, JDocs []), (''nextPage'', JNull)]) (no_more msgs)
          else if items r = [] then ApiResponse 200 (Arr []) (none_found msgs)
          else ApiResponse 200 (render labels r) (fetched msgs))"

definition paginated_listing ::
  "'a paginator \<Rightarrow> string \<times> string \<Rightarrow> listing_messages \<Rightarrow> 'a list \<Rightarrow> string option
     \<Rightarrow> string option \<Rightarrow> 'a listing_data response" where
  "paginated_listing paginate labels msgs aggregate query_page query_limit =
     (let options = listing_options query_page query_limit
      in listing_reply labels msgs (paginate aggregate options) (fst options))"

subsection \<open>Aggregation pipelines\<close>

text \<open>
  \<open>req.user?._id\<close> inside a pipeline is sent to the database as a value: an \<open>ObjectId\<close>,
  or \<open>null\<close> when there is no actor. \<open>$likes.likedBy\<close> is the array of the \<open>likedBy\<close>
  values of the joined documents, \<open>$in\<close> the membership test, \<open>$first\<close> the first
  element of an array or nothing, and \<open>$sort: {createdAt: -1}\<close> puts the newest first.
\<close>

datatype bson = BNull | BObjectId oid

definition actor_value :: "oid option \<Rightarrow> bson" where
  "actor_value actor = (case actor of None \<Rightarrow> BNull | Some i \<Rightarrow> BObjectId i)"

definition in_array :: "bson \<Rightarrow> bson list \<Rightarrow> bool" where
  "in_array v arr = (v \<in> set arr)"

definition first :: "'a list \<Rightarrow> 'a option" where
  "first xs = (case xs of [] \<Rightarrow> None | x # rest \<Rightarrow> Some x)"

definition sort_newest_first :: "('a \<Rightarrow> nat) \<Rightarrow> 'a list \<Rightarrow> 'a list" where
  "sort_newest_first createdAt xs = sort_key (\<lambda>x. - int (createdAt x)) xs"

record comment_view =
  cv_id :: oid
  cv_content :: string
  cv_createdAt :: nat
  cv_owner :: "owner_details option"
  cv_likeCount :: nat
  cv_isLiked :: bool

definition commentAggregate :: "oid option \<Rightarrow> string \<Rightarrow> store \<Rightarrow> comment_view list" where
  "commentAggregate actor videoId st =
     sort_newest_first cv_createdAt
       (map (\<lambda>c.
               (let ownerDetails =
                      map project_owner (filter (\<lambda>u. user_id u = comment_owner c) (users st));
                    joined_likes = filter (\<lambda>l. like_comment l = Some (comment_id c)) (likes st)
                in \<lparr>cv_id = comment_id c, cv_content = content c,
                    cv_createdAt = comment_createdAt c,
                    cv_owner = first ownerDetails,
                    cv_likeCount = length joined_likes,
                    cv_isLiked =
                      in_array (actor_value actor) (map (\<lambda>l. BObjectId (likedBy l)) joined_likes)\<rparr>))
          (filter (\<lambda>c. comment_video c = ObjectId videoId) (comments st)))"

definition getVideoComments ::
  "comment_view paginator \<Rightarrow> oid option \<Rightarrow> string \<Rightarrow> string option \<Rightarrow> string option \<Rightarrow> store
     \<Rightarrow> error + comment_view listing_data response" where
  "getVideoComments paginate actor videoId query_page query_limit st =
     (if \<not> isValid videoId then Inl (ApiError 400 ''Invalid video ID format'')
      else Inr (paginated_listing paginate (''comments'', ''totalComments'')
                  \<lparr>no_more = ''No more comments found for this video'',
                   none_found = ''No comments found for this video'',
                   fetched = ''Comments fetched successfully''\<rparr>
                  (commentAggregate actor videoId st) query_page query_limit))"

record tweet_view =
  tv_id :: oid
  tv_content :: string
  tv_owner :: "owner_details option"
  tv_createdAt :: nat
  tv_likeCount :: nat
  tv_isLiked :: bool

definition tweetAggregate :: "oid option \<Rightarrow> string \<Rightarrow> store \<Rightarrow> tweet_view list" where
  "tweetAggregate actor userId st =
     sort_newest_first tv_createdAt
       (map (\<lambda>t.
               (let ownerDetails =
                      map project_owner (filter (\<lambda>u. user_id u = tweet_owner t) (users st));
                    joined_likes = filter (\<lambda>l. like_tweet l = Some (tweet_id t)) (likes st)
                in \<lparr>tv_id = tweet_id t, tv_content = tweet_content t,
                    tv_owner = first ownerDetails,
                    tv_createdAt = tweet_createdAt t,
                    tv_likeCount = length joined_likes,
                    tv_isLiked =
                      in_array (actor_value actor) (map (\<lambda>l. BObjectId (likedBy l)) joined_likes)\<rparr>))
          (filter (\<lambda>t. tweet_owner t = ObjectId userId) (tweets st)))"

definition getUserTweets ::
  "tweet_view paginator \<Rightarrow> oid option \<Rightarrow> string \<Rightarrow> string option \<Rightarrow> string option \<Rightarrow> store
     \<Rightarrow> error + tweet_view listing_data response" where
  "getUserTweets paginate actor userId query_page query_limit st =
     (if \<not> isValid userId then Inl (ApiError 400 ''Invalid user ID format'')
      else case findById user_id (ObjectId userId) (users st) of
        None \<Rightarrow> Inl (ApiError 404 ''User not found'')
      | Some u \<Rightarrow>
          Inr (paginated_listing paginate (''tweets'', ''totalTweets'')
                 \<lparr>no_more = ''No more tweets found for this user'',
                  none_found = ''User has not tweeted yet'',
                  fetched = ''User tweets fetched successfully''\<rparr>
                 (tweetAggregate actor userId st) query_page query_limit))"

record video_view =
  vv_id :: oid
  vv_title :: string
  vv_description :: string
  vv_views :: nat
  vv_owner :: "owner_details option"
  vv_likeCount :: nat
  vv_isLiked :: bool
  vv_isPublished :: bool
  vv_thumbnail :: string

definition videoDetails :: "oid option \<Rightarrow> string \<Rightarrow> store \<Rightarrow> video_view list" where
  "videoDetails actor videoId st =
     map (\<lambda>v.
            (let ownerDetails =
                   map project_owner (filter (\<lambda>u. user_id u = video_owner v) (users st));
                 joined_likes = filter (\<lambda>l. like_video l = Some (video_id v)) (likes st)
             in \<lparr>vv_id = video_id v, vv_title = title v, vv_description = description v,
                 vv_views = views v,
                 vv_owner = first ownerDetails,
                 vv_likeCount = length joined_likes,
                 vv_isLiked =
                   in_array (actor_value actor) (map (\<lambda>l. BObjectId (likedBy l)) joined_likes),
                 vv_isPublished = isPublished v, vv_thumbnail = thumbnail v\<rparr>))
       (filter (\<lambda>v. video_id v = ObjectId videoId) (videos st))"

text \<open>\<open>getVideoById\<close> counts a view of a published video before it runs the pipeline.\<close>

definition getVideoById ::
  "oid option \<Rightarrow> string \<Rightarrow> store \<Rightarrow> (error + video_view response) \<times> store" where
  "getVideoById actor videoId st =
     (if \<not> isValid videoId then (Inl (ApiError 400 ''Invalid video ID format''), st)
      else case findById video_id (ObjectId videoId) (videos st) of
        None \<Rightarrow> (Inl (ApiError 404 ''Video not found''), st)
      | Some v \<Rightarrow>
          (let st1 = (if isPublished v
                      then st\<lparr>videos := save video_id (v\<lparr>views := views v + 1\<rparr>) (videos st)\<rparr>
                      else st)
           in case videoDetails actor videoId st1 of
                [] \<Rightarrow> (Inl (ApiError 404 ''Video not found after aggregation''), st1)
              | details # rest \<Rightarrow>
                  (Inr (ApiResponse 200 details ''Video fetched successfully''), st1)))"

section \<open>The channel profile (user.controllers.js)\<close>

record channel_profile =
  cp_id :: oid
  cp_fullName :: string
  cp_email :: string
  cp_username :: string
  cp_avatar :: string
  cp_coverImage :: string
  cp_subscriberCount :: nat
  cp_ChannelsSubscribedToCount :: nat
  cp_isSubscribed :: bool

text \<open>\<open>String.prototype.toLowerCase\<close> on the letters A to Z.\<close>

definition toLowerCase :: "string \<Rightarrow> string" where
  "toLowerCase s =
     map (\<lambda>c. case map_of (zip ''ABCDEFGHIJKLMNOPQRSTUVWXYZ'' ''abcdefghijklmnopqrstuvwxyz'') c of
              None \<Rightarrow> c
            | Some lower \<Rightarrow> lower) s"

definition channelAggregate :: "oid option \<Rightarrow> string \<Rightarrow> store \<Rightarrow> channel_profile list" where
  "channelAggregate actor name st =
     map (\<lambda>u.
            (let subscribers = filter (\<lambda>s. channel s = user_id u) (subscriptions st);
                 subscribedTo = filter (\<lambda>s. subscriber s = user_id u) (subscriptions st)
             in \<lparr>cp_id = user_id u, cp_fullName = fullName u, cp_email = email u,
                 cp_username = username u, cp_avatar = avatar u, cp_coverImage = coverImage u,
                 cp_subscriberCount = length subscribers,
                 cp_ChannelsSubscribedToCount = length subscribedTo,
                 cp_isSubscribed =
                   in_array (actor_value actor) (map (\<lambda>s. BObjectId (subscriber s)) subscribers)\<rparr>))
       (filter (\<lambda>u. username u = toLowerCase name) (users st))"

definition getUserChannelProfile ::
  "oid option \<Rightarrow> string \<Rightarrow> store \<Rightarrow> error + channel_profile response" where
  "getUserChannelProfile actor name st =
     (if trim name = [] then Inl (ApiError 400 ''Username is required'')
      else case channelAggregate actor name st of
        [] \<Rightarrow> Inl (ApiError 404 ''Channel not found'')
      | profile # rest \<Rightarrow> Inr (ApiResponse 200 profile ''Channel profile fetched successfully''))"

section \<open>The vocabulary of the properties\<close>

definition videoLiked :: "oid \<Rightarrow> oid \<Rightarrow> store \<Rightarrow> bool" where
  "videoLiked userId v st = (\<exists>l\<in>set (likes st). like_video l = Some v \<and> likedBy l = userId)"

definition commentLiked :: "oid \<Rightarrow> oid \<Rightarrow> store \<Rightarrow> bool" where
  "commentLiked userId c st = (\<exists>l\<in>set (likes st). like_comment l = Some c \<and> likedBy l = userId)"

definition tweetLiked :: "oid \<Rightarrow> oid \<Rightarrow> store \<Rightarrow> bool" where
  "tweetLiked userId t st = (\<exists>l\<in>set (likes st). like_tweet l = Some t \<and> likedBy l = userId)"

definition subscribedTo :: "oid \<Rightarrow> oid \<Rightarrow> store \<Rightarrow> bool" where
  "subscribedTo userId ch st =
     (\<exists>s\<in>set (subscriptions st). subscriber s = userId \<and> channel s = ch)"

definition liked_of :: "error + like_data response \<Rightarrow> bool option" where
  "liked_of r = (case r of Inl e \<Rightarrow> None | Inr resp \<Rightarrow> Some (liked (data resp)))"

definition subscribed_of :: "error + subscription_data response \<Rightarrow> bool option" where
  "subscribed_of r = (case r of Inl e \<Rightarrow> None | Inr resp \<Rightarrow> Some (subscribed (data resp)))"

text \<open>
  Three toggles in a row, \<open>t1\<close>, \<open>t2\<close> and \<open>t3\<close>, from the store \<open>st\<close>: each reports the
  new state and leaves it in the store; the second restores the original presence, and
  the third repeats the first.
\<close>

definition toggle_law ::
  "(store \<Rightarrow> 'r \<times> store) \<Rightarrow> (store \<Rightarrow> 'r \<times> store) \<Rightarrow> (store \<Rightarrow> 'r \<times> store)
     \<Rightarrow> ('r \<Rightarrow> bool option) \<Rightarrow> (store \<Rightarrow> bool) \<Rightarrow> store \<Rightarrow> bool" where
  "toggle_law t1 t2 t3 flag present st =
     (flag (fst (t1 st)) = Some (\<not> present st) \<and>
      present (snd (t1 st)) = (\<not> present st) \<and>
      flag (fst (t2 (snd (t1 st)))) = Some (present st) \<and>
      present (snd (t2 (snd (t1 st)))) = present st \<and>
      flag (fst (t3 (snd (t2 (snd (t1 st)))))) = flag (fst (t1 st)) \<and>
      present (snd (t3 (snd (t2 (snd (t1 st)))))) = present (snd (t1 st)))"

text \<open>The status code a client sees: that of the error thrown or of the response sent.\<close>

definition status_of :: "error + 'd response \<Rightarrow> nat" where
  "status_of r = (case r of Inl e \<Rightarrow> statusCode_of e | Inr resp \<Rightarrow> statusCode resp)"

section \<open>A small store for the concrete checks\<close>

definition alice :: oid where
  "alice = ''a11ce0000000000000000001''"

definition bob :: oid where
  "bob = ''b0b000000000000000000002''"

definition carol :: oid where
  "carol = ''ca4010000000000000000003''"

definition video1 :: oid where
  "video1 = ''f00d00000000000000000010''"

definition video2 :: oid where
  "video2 = ''f00d00000000000000000020''"

definition comment1 :: oid where
  "comment1 = ''c0ffee000000000000000030''"

definition tweet1 :: oid where
  "tweet1 = ''feed00000000000000000040''"

definition playlist1 :: oid where
  "playlist1 = ''beef00000000000000000050''"

definition fresh1 :: oid where
  "fresh1 = ''0000000000000000000000a1''"

definition fresh2 :: oid where
  "fresh2 = ''0000000000000000000000a2''"

definition fresh3 :: oid where
  "fresh3 = ''0000000000000000000000a3''"

definition upper_alice :: string where
  "upper_alice = ''A11CE0000000000000000001''"

definition alice_doc :: user where
  "alice_doc = \<lparr>user_id = alice, username = ''alice'', fullName = ''Alice'',
     email = ''alice@example.org'', avatar = ''a.png'', coverImage = []\<rparr>"

definition bob_doc :: user where
  "bob_doc = \<lparr>user_id = bob, username = ''bob'', fullName = ''Bob'',
     email = ''bob@example.org'', avatar = ''b.png'', coverImage = []\<rparr>"

definition carol_doc :: user where
  "carol_doc = \<lparr>user_id = carol, username = ''carol'', fullName = ''Carol'',
     email = ''carol@example.org'', avatar = ''c.png'', coverImage = []\<rparr>"

definition video1_doc :: video where
  "video1_doc = \<lparr>video_id = video1, video_owner = alice, title = ''First'', description = ''one'',
     thumbnail = ''t1.png'', views = 0, isPublished = True\<rparr>"

definition video2_doc :: video where
  "video2_doc = \<lparr>video_id = video2, video_owner = alice, title = ''Draft'', description = ''two'',
     thumbnail = ''t2.png'', views = 0, isPublished = False\<rparr>"

definition comment1_doc :: comment where
  "comment1_doc = \<lparr>comment_id = comment1, content = ''nice'', comment_video = video1,
     comment_owner = bob, comment_createdAt = 5\<rparr>"

definition tweet1_doc :: tweet where
  "tweet1_doc = \<lparr>tweet_id = tweet1, tweet_content = ''hello'', tweet_owner = alice,
     tweet_createdAt = 3\<rparr>"

definition playlist1_doc :: playlist where
  "playlist1_doc = \<lparr>playlist_id = playlist1, playlist_name = ''mix'', playlist_description = [],
     playlist_owner = alice, playlist_videos = [video1]\<rparr>"

definition example_store :: store where
  "example_store =
     \<lparr>users = [alice_doc, bob_doc, carol_doc],
      videos = [video1_doc, video2_doc],
      comments = [comment1_doc],
      tweets = [tweet1_doc],
      likes = [],
      subscriptions = [],
      playlists = [playlist1_doc],
      files = {''tmp/thumb.png''},
      calls = []\<rparr>"

text \<open>The same store with three likes and one subscription.\<close>

definition liked_store :: store where
  "liked_store =
     example_store
       \<lparr>likes :=
          [\<lparr>like_id = fresh1, like_video = None, like_comment = Some comment1, like_tweet = None,
            likedBy = carol\<rparr>,
           \<lparr>like_id = fresh2, like_video = Some video1, like_comment = None, like_tweet = None,
            likedBy = bob\<rparr>,
           \<lparr>like_id = fresh3, like_video = None, like_comment = None, like_tweet = Some tweet1,
            likedBy = bob\<rparr>],
        subscriptions := [\<lparr>subscription_id = fresh1, subscriber = bob, channel = alice\<rparr>]\<rparr>"

text \<open>The messages of \<open>getAllVideos\<close>, and a listing of twelve items.\<close>

definition video_messages :: listing_messages where
  "video_messages =
     \<lparr>no_more = ''No more videos found'',
      none_found = ''No videos found matching your criteria'',
      fetched = ''Videos fetched successfully''\<rparr>"

definition twelve_items :: "nat list" where
  "twelve_items = [1, 2, 3, 4, 5, 6, 7, 8, 9, 10, 11, 12]"

section \<open>Properties\<close>

lemmas example_ids =
  alice_def bob_def carol_def video1_def video2_def comment1_def tweet1_def playlist1_def
  fresh1_def fresh2_def fresh3_def upper_alice_def

lemmas example_docs =
  alice_doc_def bob_doc_def carol_doc_def video1_doc_def video2_doc_def comment1_doc_def
  tweet1_doc_def playlist1_doc_def

lemmas id_simps = isValid_def hex_digit_def ObjectId_def lower_hex_def findById_def

lemmas trim_simps = blank_def trim_def strip.simps white_space_def

lemmas parse_simps =
  listing_options_def parseInt_def strip.simps white_space_def digit_def digits_value_def
  to_double_def Let_def

subsection \<open>Toggles\<close>

lemma find_SomeD: "find P xs = Some e \<Longrightarrow> e \<in> set xs \<and> P e"
  by (induction xs) (auto split: if_splits)

lemma find_None_bex: "(find P xs = None) = (\<not> (\<exists>x\<in>set xs. P x))"
  by (induction xs) auto

lemma delete_found_removes_all:
  assumes "find P xs = Some e" and "countDocuments P xs \<le> 1"
  shows "\<not> (\<exists>x\<in>set (findByIdAndDelete ident (ident e) xs). P x)"
proof
  assume "\<exists>x\<in>set (findByIdAndDelete ident (ident e) xs). P x"
  then obtain x where x: "x \<in> set (findByIdAndDelete ident (ident e) xs)" and px: "P x"
    by blast
  from find_SomeD[OF assms(1)] have e: "e \<in> set (filter P xs)"
    by simp
  from x px have x': "x \<in> set (filter P xs)" and ne: "ident x \<noteq> ident e"
    by (auto simp: findByIdAndDelete_def)
  from assms(2) have "length (filter P xs) \<le> 1" by (simp add: countDocuments_def)
  with e x' have "x = e"
    by (cases "filter P xs") (auto split: if_splits)
  with ne show False by simp
qed

lemma count_delete_le:
  "countDocuments P (findByIdAndDelete ident i xs) \<le> countDocuments P xs"
  unfolding countDocuments_def findByIdAndDelete_def
  using length_filter_le[of "\<lambda>d. ident d \<noteq> i" "filter P xs"]
  by (simp add: conj_commute)

lemma count_append_new:
  assumes "find P xs = None"
  shows "countDocuments P (xs @ [d]) \<le> 1"
proof -
  from assms have "filter P xs = []" by (simp add: find_None_bex filter_empty_conv)
  then show ?thesis by (simp add: countDocuments_def)
qed

lemma toggle_lawI:
  assumes step: "\<And>n s. pre s \<Longrightarrow>
      flag (fst (t n s)) = Some (\<not> present s) \<and> present (snd (t n s)) = (\<not> present s) \<and>
      pre (snd (t n s))"
    and "pre st"
  shows "toggle_law (t n1) (t n2) (t n3) flag present st"
proof -
  let ?s1 = "snd (t n1 st)"
  let ?s2 = "snd (t n2 ?s1)"
  from step[OF assms(2), of n1]
  have 1: "flag (fst (t n1 st)) = Some (\<not> present st)" "present ?s1 = (\<not> present st)" "pre ?s1"
    by simp_all
  from step[OF 1(3), of n2]
  have 2: "flag (fst (t n2 ?s1)) = Some (\<not> present ?s1)" "present ?s2 = (\<not> present ?s1)" "pre ?s2"
    by simp_all
  from step[OF 2(3), of n3]
  have 3: "flag (fst (t n3 ?s2)) = Some (\<not> present ?s2)"
    "present (snd (t n3 ?s2)) = (\<not> present ?s2)"
    by simp_all
  show ?thesis
    unfolding toggle_law_def using 1 2 3 by simp
qed

lemma toggleVideoLike_step:
  assumes "isValid videoId"
    and "findById video_id (ObjectId videoId) (videos st) = Some d"
    and "isPublished d"
    and "countDocuments (\<lambda>l. like_video l = Some (ObjectId videoId) \<and> likedBy l = a) (likes st) \<le> 1"
  shows "liked_of (fst (toggleVideoLike nid (Some a) videoId st)) = Some (\<not> videoLiked a (ObjectId videoId) st) \<and>
     videoLiked a (ObjectId videoId) (snd (toggleVideoLike nid (Some a) videoId st)) = (\<not> videoLiked a (ObjectId videoId) st) \<and>
     findById video_id (ObjectId videoId) (videos (snd (toggleVideoLike nid (Some a) videoId st))) = Some d \<and>
     countDocuments (\<lambda>l. like_video l = Some (ObjectId videoId) \<and> likedBy l = a)
       (likes (snd (toggleVideoLike nid (Some a) videoId st))) \<le> 1"
proof -
  let ?P = "\<lambda>l. like_video l = Some (ObjectId videoId) \<and> likedBy l = a"
  let ?r = "toggleVideoLike nid (Some a) videoId st"
  have P: "(\<lambda>l. like_video l = Some (ObjectId videoId) \<and> Some (likedBy l) = Some a) = ?P" by auto
  show ?thesis
  proof (cases "find ?P (likes st)")
    case None
    then have absent: "\<not> videoLiked a (ObjectId videoId) st"
      by (simp add: find_None_bex videoLiked_def)
    have r: "snd ?r = st\<lparr>likes := likes st @ [\<lparr>like_id = nid, like_video = Some (ObjectId videoId), like_comment = None, like_tweet = None, likedBy = a\<rparr>]\<rparr>"
      "liked_of (fst ?r) = Some True"
      using assms None by (simp_all add: toggleVideoLike_def Let_def P liked_of_def)
    show ?thesis
      unfolding r using absent count_append_new[OF None] assms(2)
      by (simp add: videoLiked_def)
  next
    case (Some e)
    from find_SomeD[OF Some] have present: "videoLiked a (ObjectId videoId) st"
      by (auto simp: videoLiked_def)
    have r: "snd ?r = st\<lparr>likes := findByIdAndDelete like_id (like_id e) (likes st)\<rparr>"
      "liked_of (fst ?r) = Some False"
      using assms Some by (simp_all add: toggleVideoLike_def Let_def P liked_of_def)
    from delete_found_removes_all[OF Some assms(4), of like_id]
    have "\<not> videoLiked a (ObjectId videoId) (snd ?r)"
      unfolding r by (simp add: videoLiked_def)
    moreover have "countDocuments ?P (likes (snd ?r)) \<le> 1"
      unfolding r using assms(4) count_delete_le[of ?P like_id "like_id e" "likes st"] by simp
    moreover have "findById video_id (ObjectId videoId) (videos (snd ?r)) = Some d"
      unfolding r using assms(2) by simp
    ultimately show ?thesis using present r(2) by simp
  qed
qed

lemma toggleCommentLike_step:
  assumes "isValid commentId"
    and "findById comment_id (ObjectId commentId) (comments st) = Some d"
    and "countDocuments (\<lambda>l. like_comment l = Some (ObjectId commentId) \<and> likedBy l = a) (likes st) \<le> 1"
  shows "liked_of (fst (toggleCommentLike nid (Some a) commentId st)) = Some (\<not> commentLiked a (ObjectId commentId) st) \<and>
     commentLiked a (ObjectId commentId) (snd (toggleCommentLike nid (Some a) commentId st)) = (\<not> commentLiked a (ObjectId commentId) st) \<and>
     findById comment_id (ObjectId commentId) (comments (snd (toggleCommentLike nid (Some a) commentId st))) = Some d \<and>
     countDocuments (\<lambda>l. like_comment l = Some (ObjectId commentId) \<and> likedBy l = a)
       (likes (snd (toggleCommentLike nid (Some a) commentId st))) \<le> 1"
proof -
  let ?P = "\<lambda>l. like_comment l = Some (ObjectId commentId) \<and> likedBy l = a"
  let ?r = "toggleCommentLike nid (Some a) commentId st"
  have P: "(\<lambda>l. like_comment l = Some (ObjectId commentId) \<and> Some (likedBy l) = Some a) = ?P" by auto
  show ?thesis
  proof (cases "find ?P (likes st)")
    case None
    then have absent: "\<not> commentLiked a (ObjectId commentId) st"
      by (simp add: find_None_bex commentLiked_def)
    have r: "snd ?r = st\<lparr>likes := likes st @ [\<lparr>like_id = nid, like_video = None, like_comment = Some (ObjectId commentId), like_tweet = None, likedBy = a\<rparr>]\<rparr>"
      "liked_of (fst ?r) = Some True"
      using assms None by (simp_all add: toggleCommentLike_def Let_def P liked_of_def)
    show ?thesis
      unfolding r using absent count_append_new[OF None] assms(2)
      by (simp add: commentLiked_def)
  next
    case (Some e)
    from find_SomeD[OF Some] have present: "commentLiked a (ObjectId commentId) st"
      by (auto simp: commentLiked_def)
    have r: "snd ?r = st\<lparr>likes := findByIdAndDelete like_id (like_id e) (likes st)\<rparr>"
      "liked_of (fst ?r) = Some False"
      using assms Some by (simp_all add: toggleCommentLike_def Let_def P liked_of_def)
    from delete_found_removes_all[OF Some assms(3), of like_id]
    have "\<not> commentLiked a (ObjectId commentId) (snd ?r)"
      unfolding r by (simp add: commentLiked_def)
    moreover have "countDocuments ?P (likes (snd ?r)) \<le> 1"
      unfolding r using assms(3) count_delete_le[of ?P like_id "like_id e" "likes st"] by simp
    moreover have "findById comment_id (ObjectId commentId) (comments (snd ?r)) = Some d"
      unfolding r using assms(2) by simp
    ultimately show ?thesis using present r(2) by simp
  qed
qed

lemma toggleTweetLike_step:
  assumes "isValid tweetId"
    and "findById tweet_id (ObjectId tweetId) (tweets st) = Some d"
    and "countDocuments (\<lambda>l. like_tweet l = Some (ObjectId tweetId) \<and> likedBy l = a) (likes st) \<le> 1"
  shows "liked_of (fst (toggleTweetLike nid (Some a) tweetId st)) = Some (\<not> tweetLiked a (ObjectId tweetId) st) \<and>
     tweetLiked a (ObjectId tweetId) (snd (toggleTweetLike nid (Some a) tweetId st)) = (\<not> tweetLiked a (ObjectId tweetId) st) \<and>
     findById tweet_id (ObjectId tweetId) (tweets (snd (toggleTweetLike nid (Some a) tweetId st))) = Some d \<and>
     countDocuments (\<lambda>l. like_tweet l = Some (ObjectId tweetId) \<and> likedBy l = a)
       (likes (snd (toggleTweetLike nid (Some a) tweetId st))) \<le> 1"
proof -
  let ?P = "\<lambda>l. like_tweet l = Some (ObjectId tweetId) \<and> likedBy l = a"
  let ?r = "toggleTweetLike nid (Some a) tweetId st"
  have P: "(\<lambda>l. like_tweet l = Some (ObjectId tweetId) \<and> Some (likedBy l) = Some a) = ?P" by auto
  show ?thesis
  proof (cases "find ?P (likes st)")
    case None
    then have absent: "\<not> tweetLiked a (ObjectId tweetId) st"
      by (simp add: find_None_bex tweetLiked_def)
    have r: "snd ?r = st\<lparr>likes := likes st @ [\<lparr>like_id = nid, like_video = None, like_comment = None, like_tweet = Some (ObjectId tweetId), likedBy = a\<rparr>]\<rparr>"
      "liked_of (fst ?r) = Some True"
      using assms None by (simp_all add: toggleTweetLike_def Let_def P liked_of_def)
    show ?thesis
      unfolding r using absent count_append_new[OF None] assms(2)
      by (simp add: tweetLiked_def)
  next
    case (Some e)
    from find_SomeD[OF Some] have present: "tweetLiked a (ObjectId tweetId) st"
      by (auto simp: tweetLiked_def)
    have r: "snd ?r = st\<lparr>likes := findByIdAndDelete like_id (like_id e) (likes st)\<rparr>"
      "liked_of (fst ?r) = Some False"
      using assms Some by (simp_all add: toggleTweetLike_def Let_def P liked_of_def)
    from delete_found_removes_all[OF Some assms(3), of like_id]
    have "\<not> tweetLiked a (ObjectId tweetId) (snd ?r)"
      unfolding r by (simp add: tweetLiked_def)
    moreover have "countDocuments ?P (likes (snd ?r)) \<le> 1"
      unfolding r using assms(3) count_delete_le[of ?P like_id "like_id e" "likes st"] by simp
    moreover have "findById tweet_id (ObjectId tweetId) (tweets (snd ?r)) = Some d"
      unfolding r using assms(2) by simp
    ultimately show ?thesis using present r(2) by simp
  qed
qed

lemma toggleSubscription_step:
  assumes "isValid chanId"
    and "chanId \<noteq> a"
    and "findById user_id (ObjectId chanId) (users st) = Some d"
    and "countDocuments (\<lambda>s. subscriber s = a \<and> channel s = ObjectId chanId) (subscriptions st) \<le> 1"
  shows "subscribed_of (fst (toggleSubscription nid (Some a) chanId st))
       = Some (\<not> subscribedTo a (ObjectId chanId) st) \<and>
     subscribedTo a (ObjectId chanId) (snd (toggleSubscription nid (Some a) chanId st))
       = (\<not> subscribedTo a (ObjectId chanId) st) \<and>
     findById user_id (ObjectId chanId) (users (snd (toggleSubscription nid (Some a) chanId st))) = Some d \<and>
     countDocuments (\<lambda>s. subscriber s = a \<and> channel s = ObjectId chanId)
       (subscriptions (snd (toggleSubscription nid (Some a) chanId st))) \<le> 1"
proof -
  let ?P = "\<lambda>s. subscriber s = a \<and> channel s = ObjectId chanId"
  let ?r = "toggleSubscription nid (Some a) chanId st"
  show ?thesis
  proof (cases "find ?P (subscriptions st)")
    case None
    then have absent: "\<not> subscribedTo a (ObjectId chanId) st"
      by (simp add: find_None_bex subscribedTo_def)
    have r: "snd ?r = st\<lparr>subscriptions := subscriptions st @
          [\<lparr>subscription_id = nid, subscriber = a, channel = ObjectId chanId\<rparr>]\<rparr>"
      "subscribed_of (fst ?r) = Some True"
      using assms None by (simp_all add: toggleSubscription_def Let_def subscribed_of_def)
    show ?thesis
      unfolding r using absent count_append_new[OF None] assms(3)
      by (simp add: subscribedTo_def)
  next
    case (Some e)
    from find_SomeD[OF Some] have present: "subscribedTo a (ObjectId chanId) st"
      by (auto simp: subscribedTo_def)
    have r: "snd ?r = st\<lparr>subscriptions :=
          findByIdAndDelete subscription_id (subscription_id e) (subscriptions st)\<rparr>"
      "subscribed_of (fst ?r) = Some False"
      using assms Some by (simp_all add: toggleSubscription_def Let_def subscribed_of_def)
    from delete_found_removes_all[OF Some assms(4), of subscription_id]
    have "\<not> subscribedTo a (ObjectId chanId) (snd ?r)"
      unfolding r by (simp add: subscribedTo_def)
    moreover have "countDocuments ?P (subscriptions (snd ?r)) \<le> 1"
      unfolding r
      using assms(4) count_delete_le[of ?P subscription_id "subscription_id e" "subscriptions st"]
      by simp
    moreover have "findById user_id (ObjectId chanId) (users (snd ?r)) = Some d"
      unfolding r using assms(3) by simp
    ultimately show ?thesis using present r(2) by simp
  qed
qed

text \<open>
  C1 (amended). For an authenticated actor and an existing target (a published video, a
  comment, a tweet, or another user's channel), in a store that holds at most one record
  for the pair: a toggle deletes the record if there is one and reports \<open>false\<close>, creates
  one otherwise and reports \<open>true\<close>; two toggles in a row restore the original presence;
  a third toggle reproduces the result of the first.
\<close>

theorem toggle_flips_presence:
  "(isValid videoId \<and> findById video_id (ObjectId videoId) (videos st) = Some v \<and> isPublished v \<and>
    countDocuments (\<lambda>l. like_video l = Some (ObjectId videoId) \<and> likedBy l = a) (likes st) \<le> 1
    \<longrightarrow> toggle_law (toggleVideoLike n1 (Some a) videoId) (toggleVideoLike n2 (Some a) videoId)
          (toggleVideoLike n3 (Some a) videoId) liked_of (videoLiked a (ObjectId videoId)) st) \<and>
   (isValid commentId \<and> findById comment_id (ObjectId commentId) (comments st) = Some c \<and>
    countDocuments (\<lambda>l. like_comment l = Some (ObjectId commentId) \<and> likedBy l = a) (likes st) \<le> 1
    \<longrightarrow> toggle_law (toggleCommentLike n1 (Some a) commentId) (toggleCommentLike n2 (Some a) commentId)
          (toggleCommentLike n3 (Some a) commentId) liked_of (commentLiked a (ObjectId commentId)) st) \<and>
   (isValid tweetId \<and> findById tweet_id (ObjectId tweetId) (tweets st) = Some t \<and>
    countDocuments (\<lambda>l. like_tweet l = Some (ObjectId tweetId) \<and> likedBy l = a) (likes st) \<le> 1
    \<longrightarrow> toggle_law (toggleTweetLike n1 (Some a) tweetId) (toggleTweetLike n2 (Some a) tweetId)
          (toggleTweetLike n3 (Some a) tweetId) liked_of (tweetLiked a (ObjectId tweetId)) st) \<and>
   (isValid chanId \<and> chanId \<noteq> a \<and> findById user_id (ObjectId chanId) (users st) = Some ch \<and>
    countDocuments (\<lambda>s. subscriber s = a \<and> channel s = ObjectId chanId) (subscriptions st) \<le> 1
    \<longrightarrow> toggle_law (toggleSubscription n1 (Some a) chanId) (toggleSubscription n2 (Some a) chanId)
          (toggleSubscription n3 (Some a) chanId) subscribed_of (subscribedTo a (ObjectId chanId)) st)"
proof (intro conjI impI)
  assume h: "isValid videoId \<and> findById video_id (ObjectId videoId) (videos st) = Some v \<and> isPublished v \<and>
    countDocuments (\<lambda>l. like_video l = Some (ObjectId videoId) \<and> likedBy l = a) (likes st) \<le> 1"
  show "toggle_law (toggleVideoLike n1 (Some a) videoId) (toggleVideoLike n2 (Some a) videoId)
          (toggleVideoLike n3 (Some a) videoId) liked_of (videoLiked a (ObjectId videoId)) st"
  proof (rule toggle_lawI[where t = "\<lambda>n. toggleVideoLike n (Some a) videoId" and
        pre = "\<lambda>s. findById video_id (ObjectId videoId) (videos s) = Some v \<and>
          countDocuments (\<lambda>l. like_video l = Some (ObjectId videoId) \<and> likedBy l = a) (likes s) \<le> 1"])
    fix n :: oid and s :: store
    assume "findById video_id (ObjectId videoId) (videos s) = Some v \<and>
      countDocuments (\<lambda>l. like_video l = Some (ObjectId videoId) \<and> likedBy l = a) (likes s) \<le> 1"
    with h toggleVideoLike_step[of videoId s v a n]
    show "liked_of (fst (toggleVideoLike n (Some a) videoId s)) = Some (\<not> videoLiked a (ObjectId videoId) s) \<and>
      videoLiked a (ObjectId videoId) (snd (toggleVideoLike n (Some a) videoId s)) = (\<not> videoLiked a (ObjectId videoId) s) \<and>
      (findById video_id (ObjectId videoId) (videos (snd (toggleVideoLike n (Some a) videoId s))) = Some v \<and>
       countDocuments (\<lambda>l. like_video l = Some (ObjectId videoId) \<and> likedBy l = a)
         (likes (snd (toggleVideoLike n (Some a) videoId s))) \<le> 1)"
      by simp
  next
    from h show "findById video_id (ObjectId videoId) (videos st) = Some v \<and>
      countDocuments (\<lambda>l. like_video l = Some (ObjectId videoId) \<and> likedBy l = a) (likes st) \<le> 1"
      by simp
  qed
next
  assume h: "isValid commentId \<and> findById comment_id (ObjectId commentId) (comments st) = Some c \<and>
    countDocuments (\<lambda>l. like_comment l = Some (ObjectId commentId) \<and> likedBy l = a) (likes st) \<le> 1"
  show "toggle_law (toggleCommentLike n1 (Some a) commentId) (toggleCommentLike n2 (Some a) commentId)
          (toggleCommentLike n3 (Some a) commentId) liked_of (commentLiked a (ObjectId commentId)) st"
  proof (rule toggle_lawI[where t = "\<lambda>n. toggleCommentLike n (Some a) commentId" and
        pre = "\<lambda>s. findById comment_id (ObjectId commentId) (comments s) = Some c \<and>
          countDocuments (\<lambda>l. like_comment l = Some (ObjectId commentId) \<and> likedBy l = a) (likes s) \<le> 1"])
    fix n :: oid and s :: store
    assume "findById comment_id (ObjectId commentId) (comments s) = Some c \<and>
      countDocuments (\<lambda>l. like_comment l = Some (ObjectId commentId) \<and> likedBy l = a) (likes s) \<le> 1"
    with h toggleCommentLike_step[of commentId s c a n]
    show "liked_of (fst (toggleCommentLike n (Some a) commentId s)) = Some (\<not> commentLiked a (ObjectId commentId) s) \<and>
      commentLiked a (ObjectId commentId) (snd (toggleCommentLike n (Some a) commentId s)) = (\<not> commentLiked a (ObjectId commentId) s) \<and>
      (findById comment_id (ObjectId commentId) (comments (snd (toggleCommentLike n (Some a) commentId s))) = Some c \<and>
       countDocuments (\<lambda>l. like_comment l = Some (ObjectId commentId) \<and> likedBy l = a)
         (likes (snd (toggleCommentLike n (Some a) commentId s))) \<le> 1)"
      by simp
  next
    from h show "findById comment_id (ObjectId commentId) (comments st) = Some c \<and>
      countDocuments (\<lambda>l. like_comment l = Some (ObjectId commentId) \<and> likedBy l = a) (likes st) \<le> 1"
      by simp
  qed
next
  assume h: "isValid tweetId \<and> findById tweet_id (ObjectId tweetId) (tweets st) = Some t \<and>
    countDocuments (\<lambda>l. like_tweet l = Some (ObjectId tweetId) \<and> likedBy l = a) (likes st) \<le> 1"
  show "toggle_law (toggleTweetLike n1 (Some a) tweetId) (toggleTweetLike n2 (Some a) tweetId)
          (toggleTweetLike n3 (Some a) tweetId) liked_of (tweetLiked a (ObjectId tweetId)) st"
  proof (rule toggle_lawI[where t = "\<lambda>n. toggleTweetLike n (Some a) tweetId" and
        pre = "\<lambda>s. findById tweet_id (ObjectId tweetId) (tweets s) = Some t \<and>
          countDocuments (\<lambda>l. like_tweet l = Some (ObjectId tweetId) \<and> likedBy l = a) (likes s) \<le> 1"])
    fix n :: oid and s :: store
    assume "findById tweet_id (ObjectId tweetId) (tweets s) = Some t \<and>
      countDocuments (\<lambda>l. like_tweet l = Some (ObjectId tweetId) \<and> likedBy l = a) (likes s) \<le> 1"
    with h toggleTweetLike_step[of tweetId s t a n]
    show "liked_of (fst (toggleTweetLike n (Some a) tweetId s)) = Some (\<not> tweetLiked a (ObjectId tweetId) s) \<and>
      tweetLiked a (ObjectId tweetId) (snd (toggleTweetLike n (Some a) tweetId s)) = (\<not> tweetLiked a (ObjectId tweetId) s) \<and>
      (findById tweet_id (ObjectId tweetId) (tweets (snd (toggleTweetLike n (Some a) tweetId s))) = Some t \<and>
       countDocuments (\<lambda>l. like_tweet l = Some (ObjectId tweetId) \<and> likedBy l = a)
         (likes (snd (toggleTweetLike n (Some a) tweetId s))) \<le> 1)"
      by simp
  next
    from h show "findById tweet_id (ObjectId tweetId) (tweets st) = Some t \<and>
      countDocuments (\<lambda>l. like_tweet l = Some (ObjectId tweetId) \<and> likedBy l = a) (likes st) \<le> 1"
      by simp
  qed
next
  assume h: "isValid chanId \<and> chanId \<noteq> a \<and> findById user_id (ObjectId chanId) (users st) = Some ch \<and>
    countDocuments (\<lambda>s. subscriber s = a \<and> channel s = ObjectId chanId) (subscriptions st) \<le> 1"
  show "toggle_law (toggleSubscription n1 (Some a) chanId) (toggleSubscription n2 (Some a) chanId)
          (toggleSubscription n3 (Some a) chanId) subscribed_of (subscribedTo a (ObjectId chanId)) st"
  proof (rule toggle_lawI[where t = "\<lambda>n. toggleSubscription n (Some a) chanId" and
        pre = "\<lambda>s. findById user_id (ObjectId chanId) (users s) = Some ch \<and>
          countDocuments (\<lambda>s. subscriber s = a \<and> channel s = ObjectId chanId) (subscriptions s) \<le> 1"])
    fix n :: oid and s :: store
    assume "findById user_id (ObjectId chanId) (users s) = Some ch \<and>
      countDocuments (\<lambda>s. subscriber s = a \<and> channel s = ObjectId chanId) (subscriptions s) \<le> 1"
    with h toggleSubscription_step[of chanId a s ch n]
    show "subscribed_of (fst (toggleSubscription n (Some a) chanId s))
        = Some (\<not> subscribedTo a (ObjectId chanId) s) \<and>
      subscribedTo a (ObjectId chanId) (snd (toggleSubscription n (Some a) chanId s))
        = (\<not> subscribedTo a (ObjectId chanId) s) \<and>
      (findById user_id (ObjectId chanId) (users (snd (toggleSubscription n (Some a) chanId s))) = Some ch \<and>
       countDocuments (\<lambda>s. subscriber s = a \<and> channel s = ObjectId chanId)
         (subscriptions (snd (toggleSubscription n (Some a) chanId s))) \<le> 1)"
      by simp
  next
    from h show "findById user_id (ObjectId chanId) (users st) = Some ch \<and>
      countDocuments (\<lambda>s. subscriber s = a \<and> channel s = ObjectId chanId) (subscriptions st) \<le> 1"
      by simp
  qed
qed

theorem toggle_flips_presence_witness:
  "toggle_law (toggleVideoLike fresh1 (Some bob) video1) (toggleVideoLike fresh2 (Some bob) video1)
     (toggleVideoLike fresh3 (Some bob) video1) liked_of (videoLiked bob (ObjectId video1)) example_store \<and>
   toggle_law (toggleCommentLike fresh1 (Some bob) comment1) (toggleCommentLike fresh2 (Some bob) comment1)
     (toggleCommentLike fresh3 (Some bob) comment1) liked_of (commentLiked bob (ObjectId comment1))
     example_store \<and>
   toggle_law (toggleTweetLike fresh1 (Some bob) tweet1) (toggleTweetLike fresh2 (Some bob) tweet1)
     (toggleTweetLike fresh3 (Some bob) tweet1) liked_of (tweetLiked bob (ObjectId tweet1)) example_store \<and>
   toggle_law (toggleSubscription fresh1 (Some bob) alice) (toggleSubscription fresh2 (Some bob) alice)
     (toggleSubscription fresh3 (Some bob) alice) subscribed_of (subscribedTo bob (ObjectId alice))
     example_store"
  using toggle_flips_presence[of video1 example_store video1_doc bob fresh1 fresh2 fresh3
      comment1 comment1_doc tweet1 tweet1_doc alice alice_doc]
  by (simp add: example_store_def example_docs example_ids id_simps countDocuments_def)

text \<open>
  C1 as stated fails in its last clause: from a store without the like, the second toggle
  reports \<open>false\<close> and the third reports \<open>true\<close>.
\<close>

theorem third_toggle_differs_from_second:
  "liked_of (fst (toggleVideoLike fresh2 (Some bob) video1
       (snd (toggleVideoLike fresh1 (Some bob) video1 example_store)))) = Some False \<and>
   liked_of (fst (toggleVideoLike fresh3 (Some bob) video1
       (snd (toggleVideoLike fresh2 (Some bob) video1
         (snd (toggleVideoLike fresh1 (Some bob) video1 example_store)))))) = Some True"
  by (simp add: toggleVideoLike_def example_store_def example_docs example_ids id_simps liked_of_def
      findByIdAndDelete_def countDocuments_def Let_def)

subsection \<open>Self-subscription\<close>

lemma toggleSubscription_keeps_pairs_unique:
  assumes "countDocuments (\<lambda>s. subscriber s = x \<and> channel s = y) (subscriptions st) \<le> 1"
  shows "countDocuments (\<lambda>s. subscriber s = x \<and> channel s = y)
           (subscriptions (snd (toggleSubscription nid actor chanId st))) \<le> 1"
proof (cases "isValid chanId \<and> actor \<noteq> None \<and> Some chanId \<noteq> actor \<and>
    findById user_id (ObjectId chanId) (users st) \<noteq> None")
  case False
  then show ?thesis using assms
    by (auto simp: toggleSubscription_def split: option.splits)
next
  case True
  then obtain a ch where a: "actor = Some a" "chanId \<noteq> a" "isValid chanId"
    "findById user_id (ObjectId chanId) (users st) = Some ch" by auto
  let ?P = "\<lambda>s. subscriber s = a \<and> channel s = ObjectId chanId"
  let ?Q = "\<lambda>s. subscriber s = x \<and> channel s = y"
  show ?thesis
  proof (cases "find ?P (subscriptions st)")
    case None
    have r: "snd (toggleSubscription nid actor chanId st) = st\<lparr>subscriptions := subscriptions st @
          [\<lparr>subscription_id = nid, subscriber = a, channel = ObjectId chanId\<rparr>]\<rparr>"
      using a None by (simp add: toggleSubscription_def Let_def)
    show ?thesis
    proof (cases "x = a \<and> y = ObjectId chanId")
      case True
      with count_append_new[OF None] show ?thesis unfolding r by simp
    next
      case False
      then show ?thesis unfolding r using assms by (auto simp: countDocuments_def)
    qed
  next
    case (Some e)
    have r: "snd (toggleSubscription nid actor chanId st) = st\<lparr>subscriptions :=
          findByIdAndDelete subscription_id (subscription_id e) (subscriptions st)\<rparr>"
      using a Some by (simp add: toggleSubscription_def Let_def)
    show ?thesis
      unfolding r
      using assms count_delete_le[of ?Q subscription_id "subscription_id e" "subscriptions st"]
      by simp
  qed
qed

text \<open>
  C7. The route parameter is compared with the actor's id as a string, but resolved as an
  \<open>ObjectId\<close>: Alice's own id written in upper case passes the self-subscription check,
  finds Alice as the channel, and a Subscription of Alice to herself is stored.
\<close>

theorem toggleSubscription_self_subscription:
  "isValid upper_alice \<and> ObjectId upper_alice = alice \<and>
   toggleSubscription fresh1 (Some alice) upper_alice example_store =
     (Inr (ApiResponse 200 \<lparr>channelId = upper_alice, subscribed = True, subscriberCount = 1\<rparr>
        ''Subscribed successfully''),
      example_store\<lparr>subscriptions :=
        [\<lparr>subscription_id = fresh1, subscriber = alice, channel = alice\<rparr>]\<rparr>)"
  by (simp add: toggleSubscription_def example_store_def example_docs example_ids id_simps
      countDocuments_def Let_def)

subsection \<open>Unpublished videos\<close>

text \<open>
  C10 (amended). For a video whose \<open>isPublished\<close> flag is false, \<open>toggleVideoLike\<close> answers
  403 and \<open>addComment\<close> answers 403 when the content is not blank and 400 when it is; in
  every case the store is left as it was, so no Comment or Like is created.
\<close>

theorem unpublished_video_rejected:
  "isValid videoId \<and> findById video_id (ObjectId videoId) (videos st) = Some v \<and> \<not> isPublished v
   \<longrightarrow> toggleVideoLike nid actor videoId st =
         (Inl (ApiError 403 ''Cannot like an unpublished video''), st) \<and>
       addComment nid now actor videoId body_content st =
         (if blank body_content then (Inl (ApiError 400 ''Comment content cannot be empty''), st)
          else (Inl (ApiError 403 ''Cannot comment on an unpublished video''), st))"
  by (simp add: toggleVideoLike_def addComment_def)

theorem unpublished_video_rejected_witness:
  "toggleVideoLike fresh1 (Some bob) video2 example_store =
     (Inl (ApiError 403 ''Cannot like an unpublished video''), example_store) \<and>
   addComment fresh1 7 (Some bob) video2 (Some ''hi'') example_store =
     (Inl (ApiError 403 ''Cannot comment on an unpublished video''), example_store) \<and>
   addComment fresh1 7 (Some bob) video2 (Some [CHR 0xC2, CHR 0xA0]) example_store =
     (Inl (ApiError 400 ''Comment content cannot be empty''), example_store)"
proof -
  have pre: "isValid video2"
    "findById video_id (ObjectId video2) (videos example_store) = Some video2_doc"
    "\<not> isPublished video2_doc" "\<not> blank (Some ''hi'')" "blank (Some [CHR 0xC2, CHR 0xA0])"
    by (simp_all add: example_store_def example_docs example_ids id_simps trim_simps)
  show ?thesis
    using pre
      unpublished_video_rejected[of video2 example_store video2_doc fresh1 "Some bob" 7
        "Some ''hi''"]
      unpublished_video_rejected[of video2 example_store video2_doc fresh1 "Some bob" 7
        "Some [CHR 0xC2, CHR 0xA0]"]
    by simp
qed

text \<open>
  C10 as stated fails for a comment without content: the answer is 400, not 403.
\<close>

theorem blank_comment_on_unpublished_video:
  "map_option isPublished (findById video_id (ObjectId video2) (videos example_store)) = Some False \<and>
   status_of (fst (addComment fresh1 7 (Some bob) video2 (Some []) example_store)) = 400"
  by (simp add: addComment_def status_of_def example_store_def example_docs example_ids id_simps
      blank_def)

subsection \<open>Who may change a comment\<close>

lemma findById_ident: "findById ident i docs = Some c \<Longrightarrow> ident c = i"
  using find_SomeD[of "\<lambda>d. ident d = i" docs c] by (simp add: findById_def)

lemma findById_save:
  "findById ident i docs = Some c \<Longrightarrow> ident d = i \<Longrightarrow> findById ident i (save ident d docs) = Some d"
  by (induction docs) (auto simp: findById_def save_def split: if_splits)

lemma findById_delete: "findById ident i (findByIdAndDelete ident i docs) = None"
  by (simp add: findById_def findByIdAndDelete_def find_None_bex)

text \<open>
  C3 (amended). For a stored comment, addressed by a well-formed id, and an authenticated
  actor: \<open>updateComment\<close> (with content that is not blank) is permitted exactly when the
  actor owns the comment; \<open>deleteComment\<close> is permitted exactly when the actor owns the
  comment or owns the comment's video. A permitted update stores the new content and a
  permitted delete removes the comment, both with status 200; any other actor receives
  403 and the store is unchanged.
\<close>

theorem comment_mutation_gate:
  "(isValid commentId \<and> findById comment_id (ObjectId commentId) (comments st) = Some c \<and>
    \<not> blank body_content \<longrightarrow>
      (a = comment_owner c \<longrightarrow>
         status_of (fst (updateComment (Some a) commentId body_content st)) = 200 \<and>
         map_option content (findById comment_id (ObjectId commentId)
           (comments (snd (updateComment (Some a) commentId body_content st)))) = body_content) \<and>
      (a \<noteq> comment_owner c \<longrightarrow>
         updateComment (Some a) commentId body_content st =
           (Inl (ApiError 403 ''You are not authorized to update this comment''), st))) \<and>
   (isValid commentId \<and> findById comment_id (ObjectId commentId) (comments st) = Some c \<longrightarrow>
      (a = comment_owner c \<or>
       map_option video_owner (findById video_id (comment_video c) (videos st)) = Some a \<longrightarrow>
         fst (deleteComment (Some a) commentId st) =
           Inr (ApiResponse 200 commentId ''Comment deleted successfully'') \<and>
         findById comment_id (ObjectId commentId)
           (comments (snd (deleteComment (Some a) commentId st))) = None) \<and>
      (a \<noteq> comment_owner c \<and>
       map_option video_owner (findById video_id (comment_video c) (videos st)) \<noteq> Some a \<longrightarrow>
         deleteComment (Some a) commentId st =
           (Inl (ApiError 403 ''You are not authorized to delete this comment''), st)))"
proof (intro conjI impI)
  assume h: "isValid commentId \<and> findById comment_id (ObjectId commentId) (comments st) = Some c \<and>
    \<not> blank body_content" and own: "a = comment_owner c"
  from h obtain s where s: "body_content = Some s" by (cases body_content) (auto simp: blank_def)
  from h have idc: "comment_id c = ObjectId commentId" by (auto dest: findById_ident)
  have r: "updateComment (Some a) commentId body_content st =
      (Inr (ApiResponse 200
         (findById_populated (comment_id c)
            (st\<lparr>comments := save comment_id (c\<lparr>content := s\<rparr>) (comments st)\<rparr>))
         ''Comment updated successfully''),
       st\<lparr>comments := save comment_id (c\<lparr>content := s\<rparr>) (comments st)\<rparr>)"
    using h own s by (simp add: updateComment_def Let_def)
  show "status_of (fst (updateComment (Some a) commentId body_content st)) = 200"
    unfolding r by (simp add: status_of_def)
  from h idc have "findById comment_id (ObjectId commentId)
      (save comment_id (c\<lparr>content := s\<rparr>) (comments st)) = Some (c\<lparr>content := s\<rparr>)"
    by (intro findById_save) auto
  then show "map_option content (findById comment_id (ObjectId commentId)
      (comments (snd (updateComment (Some a) commentId body_content st)))) = body_content"
    unfolding r using s by simp
next
  assume "isValid commentId \<and> findById comment_id (ObjectId commentId) (comments st) = Some c \<and>
    \<not> blank body_content" and "a \<noteq> comment_owner c"
  then show "updateComment (Some a) commentId body_content st =
      (Inl (ApiError 403 ''You are not authorized to update this comment''), st)"
    by (auto simp: updateComment_def)
next
  assume h: "isValid commentId \<and> findById comment_id (ObjectId commentId) (comments st) = Some c"
    and p: "a = comment_owner c \<or>
      map_option video_owner (findById video_id (comment_video c) (videos st)) = Some a"
  have r: "deleteComment (Some a) commentId st =
      (Inr (ApiResponse 200 commentId ''Comment deleted successfully''),
       st\<lparr>comments := findByIdAndDelete comment_id (ObjectId commentId) (comments st)\<rparr>)"
    using h p by (auto simp: deleteComment_def Let_def split: option.splits)
  show "fst (deleteComment (Some a) commentId st) =
      Inr (ApiResponse 200 commentId ''Comment deleted successfully'')"
    unfolding r by simp
  show "findById comment_id (ObjectId commentId)
      (comments (snd (deleteComment (Some a) commentId st))) = None"
    unfolding r by (simp add: findById_delete)
next
  assume "isValid commentId \<and> findById comment_id (ObjectId commentId) (comments st) = Some c"
    and "a \<noteq> comment_owner c \<and>
      map_option video_owner (findById video_id (comment_video c) (videos st)) \<noteq> Some a"
  then show "deleteComment (Some a) commentId st =
      (Inl (ApiError 403 ''You are not authorized to delete this comment''), st)"
    by (auto simp: deleteComment_def split: option.splits)
qed


theorem comment_mutation_gate_witness:
  "status_of (fst (updateComment (Some bob) comment1 (Some ''edited'') example_store)) = 200 \<and>
   map_option content (findById comment_id (ObjectId comment1)
     (comments (snd (updateComment (Some bob) comment1 (Some ''edited'') example_store))))
     = Some ''edited'' \<and>
   updateComment (Some carol) comment1 (Some ''edited'') example_store =
     (Inl (ApiError 403 ''You are not authorized to update this comment''), example_store) \<and>
   fst (deleteComment (Some alice) comment1 example_store) =
     Inr (ApiResponse 200 comment1 ''Comment deleted successfully'') \<and>
   findById comment_id (ObjectId comment1)
     (comments (snd (deleteComment (Some alice) comment1 example_store))) = None \<and>
   deleteComment (Some carol) comment1 example_store =
     (Inl (ApiError 403 ''You are not authorized to delete this comment''), example_store)"
proof -
  have pre: "isValid comment1"
    "findById comment_id (ObjectId comment1) (comments example_store) = Some comment1_doc"
    "\<not> blank (Some ''edited'')"
    "findById video_id video1 (videos example_store) = Some video1_doc"
    "comment_owner comment1_doc = bob" "comment_video comment1_doc = video1"
    "video_owner video1_doc = alice"
    by (simp_all add: example_store_def example_docs example_ids id_simps trim_simps)
  have ne: "carol \<noteq> bob" "alice \<noteq> bob" "carol \<noteq> alice" "alice \<noteq> carol"
    by (simp_all add: example_ids)
  show ?thesis
    using comment_mutation_gate[of comment1 example_store comment1_doc "Some ''edited''" bob]
      comment_mutation_gate[of comment1 example_store comment1_doc "Some ''edited''" carol]
      comment_mutation_gate[of comment1 example_store comment1_doc "Some ''edited''" alice]
      pre ne
    by simp
qed

text \<open>
  C3 as stated fails for \<open>updateComment\<close>: Alice owns the video, Bob wrote the comment,
  and Alice's update is answered 403.
\<close>

theorem video_owner_cannot_update_comment:
  "map_option comment_video (findById comment_id (ObjectId comment1) (comments example_store))
     = Some video1 \<and>
   map_option video_owner (findById video_id video1 (videos example_store)) = Some alice \<and>
   updateComment (Some alice) comment1 (Some ''edited'') example_store =
     (Inl (ApiError 403 ''You are not authorized to update this comment''), example_store)"
  by (simp add: updateComment_def example_store_def example_docs example_ids id_simps trim_simps)

subsection \<open>A missing entity is never forbidden\<close>

text \<open>
  C4 (amended). For every owner-gated mutation (update or delete of a video, tweet, comment
  or playlist, the toggle of a video's publish status, and adding a video to or removing
  it from a playlist) invoked with well-formed ids, where the id of the gated entity names
  no stored entity, whoever the actor is: the lookup precedes the ownership check, so the
  answer is never 403 and the store is unchanged. The answer is 404, except that an
  update of a video, tweet, comment or playlist whose body fails the validation that
  precedes the lookup answers 400.
\<close>

theorem missing_entity_not_forbidden:
  "(isValid videoId \<and> findById video_id (ObjectId videoId) (videos st) = None \<longrightarrow>
      status_of (fst (updateVideo cloud actor videoId body_title body_description path st)) =
        (if falsy body_title \<and> falsy body_description \<and> falsy path then 400 else 404) \<and>
      snd (updateVideo cloud actor videoId body_title body_description path st) = st \<and>
      deleteVideo actor videoId st = (Inl (ApiError 404 ''Video not found''), st) \<and>
      togglePublishStatus actor videoId st = (Inl (ApiError 404 ''Video not found''), st)) \<and>
   (isValid tweetId \<and> findById tweet_id (ObjectId tweetId) (tweets st) = None \<longrightarrow>
      status_of (fst (updateTweet actor tweetId body_content st)) =
        (if blank body_content then 400 else 404) \<and>
      snd (updateTweet actor tweetId body_content st) = st \<and>
      deleteTweet actor tweetId st = (Inl (ApiError 404 ''Tweet not found''), st)) \<and>
   (isValid commentId \<and> findById comment_id (ObjectId commentId) (comments st) = None \<longrightarrow>
      status_of (fst (updateComment actor commentId body_content st)) =
        (if blank body_content then 400 else 404) \<and>
      snd (updateComment actor commentId body_content st) = st \<and>
      deleteComment actor commentId st = (Inl (ApiError 404 ''Comment not found''), st)) \<and>
   (isValid playlistId \<and> findById playlist_id (ObjectId playlistId) (playlists st) = None \<longrightarrow>
      status_of (fst (updatePlaylist actor playlistId body_name body_description st)) =
        (if blank body_name \<and> blank body_description then 400 else 404) \<and>
      snd (updatePlaylist actor playlistId body_name body_description st) = st \<and>
      deletePlaylist actor playlistId st = (Inl (ApiError 404 ''Playlist not found''), st)) \<and>
   (isValid playlistId \<and> isValid memberId \<and>
    findById playlist_id (ObjectId playlistId) (playlists st) = None \<longrightarrow>
      addVideoToPlaylist actor playlistId memberId st =
        (Inl (ApiError 404 ''Playlist not found''), st) \<and>
      removeVideoFromPlaylist actor playlistId memberId st =
        (Inl (ApiError 404 ''Playlist not found''), st))"
proof (intro conjI impI)
  assume "isValid videoId \<and> findById video_id (ObjectId videoId) (videos st) = None"
  then show "status_of (fst (updateVideo cloud actor videoId body_title body_description path st)) =
        (if falsy body_title \<and> falsy body_description \<and> falsy path then 400 else 404)"
    and "snd (updateVideo cloud actor videoId body_title body_description path st) = st"
    and "deleteVideo actor videoId st = (Inl (ApiError 404 ''Video not found''), st)"
    and "togglePublishStatus actor videoId st = (Inl (ApiError 404 ''Video not found''), st)"
    by (simp_all add: updateVideo_def deleteVideo_def togglePublishStatus_def status_of_def)
next
  assume "isValid tweetId \<and> findById tweet_id (ObjectId tweetId) (tweets st) = None"
  then show "status_of (fst (updateTweet actor tweetId body_content st)) =
        (if blank body_content then 400 else 404)"
    and "snd (updateTweet actor tweetId body_content st) = st"
    and "deleteTweet actor tweetId st = (Inl (ApiError 404 ''Tweet not found''), st)"
    by (simp_all add: updateTweet_def deleteTweet_def status_of_def)
next
  assume "isValid commentId \<and> findById comment_id (ObjectId commentId) (comments st) = None"
  then show "status_of (fst (updateComment actor commentId body_content st)) =
        (if blank body_content then 400 else 404)"
    and "snd (updateComment actor commentId body_content st) = st"
    and "deleteComment actor commentId st = (Inl (ApiError 404 ''Comment not found''), st)"
    by (simp_all add: updateComment_def deleteComment_def status_of_def)
next
  assume "isValid playlistId \<and> findById playlist_id (ObjectId playlistId) (playlists st) = None"
  then show "status_of (fst (updatePlaylist actor playlistId body_name body_description st)) =
        (if blank body_name \<and> blank body_description then 400 else 404)"
    and "snd (updatePlaylist actor playlistId body_name body_description st) = st"
    and "deletePlaylist actor playlistId st = (Inl (ApiError 404 ''Playlist not found''), st)"
    by (simp_all add: updatePlaylist_def deletePlaylist_def status_of_def)
next
  assume "isValid playlistId \<and> isValid memberId \<and>
    findById playlist_id (ObjectId playlistId) (playlists st) = None"
  then show "addVideoToPlaylist actor playlistId memberId st =
        (Inl (ApiError 404 ''Playlist not found''), st)"
    and "removeVideoFromPlaylist actor playlistId memberId st =
        (Inl (ApiError 404 ''Playlist not found''), st)"
    by (simp_all add: addVideoToPlaylist_def removeVideoFromPlaylist_def)
qed

theorem missing_entity_not_forbidden_witness:
  "status_of (fst (updateVideo (\<lambda>p. None) (Some carol) fresh1 (Some ''t'') None None example_store))
     = 404 \<and>
   deleteVideo (Some carol) fresh1 example_store =
     (Inl (ApiError 404 ''Video not found''), example_store) \<and>
   togglePublishStatus (Some carol) fresh1 example_store =
     (Inl (ApiError 404 ''Video not found''), example_store) \<and>
   status_of (fst (updateTweet (Some carol) fresh1 (Some ''t'') example_store)) = 404 \<and>
   deleteTweet (Some carol) fresh1 example_store =
     (Inl (ApiError 404 ''Tweet not found''), example_store) \<and>
   status_of (fst (updateComment (Some carol) fresh1 (Some ''t'') example_store)) = 404 \<and>
   status_of (fst (updateComment (Some carol) fresh1 (Some [CHR 0xC2, CHR 0xA0]) example_store))
     = 400 \<and>
   deleteComment (Some carol) fresh1 example_store =
     (Inl (ApiError 404 ''Comment not found''), example_store) \<and>
   status_of (fst (updatePlaylist (Some carol) fresh1 (Some ''t'') None example_store)) = 404 \<and>
   deletePlaylist (Some carol) fresh1 example_store =
     (Inl (ApiError 404 ''Playlist not found''), example_store) \<and>
   addVideoToPlaylist (Some carol) fresh1 video1 example_store =
     (Inl (ApiError 404 ''Playlist not found''), example_store) \<and>
   removeVideoFromPlaylist (Some carol) fresh1 video1 example_store =
     (Inl (ApiError 404 ''Playlist not found''), example_store)"
proof -
  have pre: "isValid fresh1" "isValid video1"
    "findById video_id (ObjectId fresh1) (videos example_store) = None"
    "findById tweet_id (ObjectId fresh1) (tweets example_store) = None"
    "findById comment_id (ObjectId fresh1) (comments example_store) = None"
    "findById playlist_id (ObjectId fresh1) (playlists example_store) = None"
    "\<not> falsy (Some ''t'')" "\<not> blank (Some ''t'')" "blank (Some [CHR 0xC2, CHR 0xA0])"
    by (simp_all add: example_store_def example_docs example_ids id_simps falsy_def trim_simps)
  show ?thesis
    using pre
      missing_entity_not_forbidden[where videoId = fresh1 and tweetId = fresh1 and
        commentId = fresh1 and playlistId = fresh1 and memberId = video1 and
        st = example_store and cloud = "\<lambda>p. None" and actor = "Some carol" and
        body_title = "Some ''t''" and body_description = None and path = None and
        body_content = "Some ''t''" and body_name = "Some ''t''"]
      missing_entity_not_forbidden[where videoId = fresh1 and tweetId = fresh1 and
        commentId = fresh1 and playlistId = fresh1 and memberId = video1 and
        st = example_store and cloud = "\<lambda>p. None" and actor = "Some carol" and
        body_title = "Some ''t''" and body_description = None and path = None and
        body_content = "Some [CHR 0xC2, CHR 0xA0]" and body_name = "Some ''t''"]
    by simp
qed

text \<open>
  C4 as stated fails for an update whose body is rejected first: the id names no comment,
  and the answer is 400, not 404.
\<close>

theorem missing_comment_blank_update:
  "isValid fresh1 \<and> findById comment_id (ObjectId fresh1) (comments example_store) = None \<and>
   status_of (fst (updateComment (Some bob) fresh1 (Some []) example_store)) = 400"
  by (simp add: updateComment_def status_of_def example_store_def example_docs example_ids
      id_simps blank_def)

subsection \<open>The upload wrapper removes the local file\<close>

text \<open>
  C8. For a call of \<open>uploadOnCloudinary\<close> with a path (a string that is not empty): if the
  remote upload fails, the function returns \<open>null\<close> and the local file is gone; if the
  upload succeeds and the local file exists, the function returns the upload result and
  the file is gone, its removal being the one call made after the upload.
\<close>

theorem uploadOnCloudinary_removes_local_file:
  "p \<noteq> [] \<longrightarrow>
     (cloud p = None \<longrightarrow>
        fst (uploadOnCloudinary cloud (Some p) st) = None \<and>
        p \<notin> files (snd (uploadOnCloudinary cloud (Some p) st))) \<and>
     (cloud p = Some resources \<and> p \<in> files st \<longrightarrow>
        fst (uploadOnCloudinary cloud (Some p) st) = Some resources \<and>
        p \<notin> files (snd (uploadOnCloudinary cloud (Some p) st)) \<and>
        calls (snd (uploadOnCloudinary cloud (Some p) st)) = calls st @ [Upload p, Unlink p])"
  by (simp add: uploadOnCloudinary_def catch_block_def Let_def)

theorem uploadOnCloudinary_removes_local_file_witness:
  "fst (uploadOnCloudinary (\<lambda>p. None) (Some ''tmp/thumb.png'') example_store) = None \<and>
   ''tmp/thumb.png'' \<notin> files (snd (uploadOnCloudinary (\<lambda>p. None) (Some ''tmp/thumb.png'') example_store)) \<and>
   fst (uploadOnCloudinary (\<lambda>p. Some \<lparr>url = ''https://media/x.png'', duration = 0\<rparr>)
          (Some ''tmp/thumb.png'') example_store) = Some \<lparr>url = ''https://media/x.png'', duration = 0\<rparr> \<and>
   ''tmp/thumb.png'' \<notin> files (snd (uploadOnCloudinary
          (\<lambda>p. Some \<lparr>url = ''https://media/x.png'', duration = 0\<rparr>)
          (Some ''tmp/thumb.png'') example_store)) \<and>
   calls (snd (uploadOnCloudinary (\<lambda>p. Some \<lparr>url = ''https://media/x.png'', duration = 0\<rparr>)
          (Some ''tmp/thumb.png'') example_store)) = [Upload ''tmp/thumb.png'', Unlink ''tmp/thumb.png'']"
proof -
  have pre: "''tmp/thumb.png'' \<noteq> []" "''tmp/thumb.png'' \<in> files example_store"
    "calls example_store = []"
    by (simp_all add: example_store_def)
  show ?thesis
    using uploadOnCloudinary_removes_local_file[of "''tmp/thumb.png''" "\<lambda>p. None" example_store]
      uploadOnCloudinary_removes_local_file[of "''tmp/thumb.png''"
        "\<lambda>p. Some \<lparr>url = ''https://media/x.png'', duration = 0\<rparr>" example_store
        "\<lparr>url = ''https://media/x.png'', duration = 0\<rparr>"]
      pre
    by simp
qed

subsection \<open>The flags of an enriched record\<close>

lemma in_array_actor:
  "in_array (actor_value actor) (map (\<lambda>x. BObjectId (f x)) xs) = (\<exists>x\<in>set xs. Some (f x) = actor)"
  by (cases actor) (auto simp: in_array_def actor_value_def)

text \<open>
  C6. In every record of the comment, tweet and video pipelines \<open>isLiked\<close> says whether
  the actor's id is the \<open>likedBy\<close> of a Like joined to the record, and in every channel
  profile \<open>isSubscribed\<close> says whether it is the \<open>subscriber\<close> of a Subscription to the
  channel; without an actor every flag is false.
\<close>

theorem flags_are_membership_tests:
  "(\<forall>r\<in>set (commentAggregate actor videoId st).
      cv_isLiked r =
        (\<exists>l\<in>set (likes st). like_comment l = Some (cv_id r) \<and> Some (likedBy l) = actor)) \<and>
   (\<forall>r\<in>set (tweetAggregate actor userId st).
      tv_isLiked r =
        (\<exists>l\<in>set (likes st). like_tweet l = Some (tv_id r) \<and> Some (likedBy l) = actor)) \<and>
   (\<forall>r\<in>set (videoDetails actor videoId st).
      vv_isLiked r =
        (\<exists>l\<in>set (likes st). like_video l = Some (vv_id r) \<and> Some (likedBy l) = actor)) \<and>
   (\<forall>r\<in>set (channelAggregate actor name st).
      cp_isSubscribed r =
        (\<exists>s\<in>set (subscriptions st). channel s = cp_id r \<and> Some (subscriber s) = actor)) \<and>
   (\<forall>r\<in>set (commentAggregate None videoId st). \<not> cv_isLiked r) \<and>
   (\<forall>r\<in>set (tweetAggregate None userId st). \<not> tv_isLiked r) \<and>
   (\<forall>r\<in>set (videoDetails None videoId st). \<not> vv_isLiked r) \<and>
   (\<forall>r\<in>set (channelAggregate None name st). \<not> cp_isSubscribed r)"
  by (auto simp: commentAggregate_def tweetAggregate_def videoDetails_def channelAggregate_def
      sort_newest_first_def in_array_actor Let_def)

theorem flags_are_membership_tests_witness:
  "list_all (\<lambda>r. cv_isLiked r =
       (\<exists>l\<in>set (likes liked_store). like_comment l = Some (cv_id r) \<and> Some (likedBy l) = Some carol))
     (commentAggregate (Some carol) video1 liked_store) \<and>
   map cv_isLiked (commentAggregate (Some carol) video1 liked_store) = [True] \<and>
   map cv_isLiked (commentAggregate (Some bob) video1 liked_store) = [False] \<and>
   map cv_isLiked (commentAggregate None video1 liked_store) = [False] \<and>
   map tv_isLiked (tweetAggregate (Some bob) alice liked_store) = [True] \<and>
   map tv_isLiked (tweetAggregate None alice liked_store) = [False] \<and>
   map vv_isLiked (videoDetails (Some bob) video1 liked_store) = [True] \<and>
   map vv_isLiked (videoDetails None video1 liked_store) = [False] \<and>
   map cp_isSubscribed (channelAggregate (Some bob) ''Alice'' liked_store) = [True] \<and>
   map cp_isSubscribed (channelAggregate (Some carol) ''Alice'' liked_store) = [False] \<and>
   map cp_isSubscribed (channelAggregate None ''Alice'' liked_store) = [False]"
proof -
  have "list_all (\<lambda>r. cv_isLiked r =
       (\<exists>l\<in>set (likes liked_store). like_comment l = Some (cv_id r) \<and> Some (likedBy l) = Some carol))
     (commentAggregate (Some carol) video1 liked_store)"
    using flags_are_membership_tests[of "Some carol" video1 liked_store]
    by (simp add: list_all_iff)
  moreover have "map cv_isLiked (commentAggregate (Some carol) video1 liked_store) = [True]"
    "map cv_isLiked (commentAggregate (Some bob) video1 liked_store) = [False]"
    "map cv_isLiked (commentAggregate None video1 liked_store) = [False]"
    by (simp_all add: commentAggregate_def sort_newest_first_def in_array_def actor_value_def
        liked_store_def example_store_def example_docs example_ids id_simps Let_def)
  moreover have "map tv_isLiked (tweetAggregate (Some bob) alice liked_store) = [True]"
    "map tv_isLiked (tweetAggregate None alice liked_store) = [False]"
    by (simp_all add: tweetAggregate_def sort_newest_first_def in_array_def actor_value_def
        liked_store_def example_store_def example_docs example_ids id_simps Let_def)
  moreover have "map vv_isLiked (videoDetails (Some bob) video1 liked_store) = [True]"
    "map vv_isLiked (videoDetails None video1 liked_store) = [False]"
    by (simp_all add: videoDetails_def in_array_def actor_value_def
        liked_store_def example_store_def example_docs example_ids id_simps Let_def)
  moreover have "map cp_isSubscribed (channelAggregate (Some bob) ''Alice'' liked_store) = [True]"
    "map cp_isSubscribed (channelAggregate (Some carol) ''Alice'' liked_store) = [False]"
    "map cp_isSubscribed (channelAggregate None ''Alice'' liked_store) = [False]"
    by (simp_all add: channelAggregate_def toLowerCase_def in_array_def actor_value_def
        liked_store_def example_store_def example_docs example_ids id_simps Let_def)
  ultimately show ?thesis by simp
qed

subsection \<open>Page and limit\<close>

lemma positive_or_pos: "1 \<le> d \<Longrightarrow> 1 \<le> positive_or d v"
  by (cases v) auto

lemma trim_strips_unicode_white_space:
  "blank (Some [CHR 0xC2, CHR 0xA0])"
  "trim ([CHR 0xEF, CHR 0xBB, CHR 0xBF] @ '' a b '' @ [CHR 0xE2, CHR 0x80, CHR 0xA8]) = ''a b''"
  by (simp_all add: trim_simps)

lemma parseInt_rounds_to_double:
  "parseInt ''9007199254740993'' = Finite 9007199254740992"
  "parseInt ([CHR 0xC2, CHR 0xA0] @ ''-7.5'') = Finite (- 7)"
  by (simp_all add: parse_simps bit_length.simps)

lemma parseInt_defaults: "parseInt ''1'' = Finite 1" "parseInt ''10'' = Finite 10"
  by (simp_all add: parse_simps)

text \<open>
  C2. For every paginated listing, against the plugin modelled from the spec: whatever the
  \<open>page\<close> and \<open>limit\<close> parameters of the request are, the window behind the reply is
  computed from a page \<open>P\<close> and a limit \<open>L\<close> that are positive integers: the value
  \<open>parseInt\<close> reads when that is an integer of at least 1, and otherwise, for a parameter
  that is missing or invalid (not a numeral, zero, negative or beyond every double), page
  1 and limit 10.
\<close>

theorem page_and_limit_are_coerced:
  "\<exists>P L r. aggregatePaginate xs (listing_options query_page query_limit) = Some r \<and>
     paginated_listing aggregatePaginate labels msgs xs query_page query_limit =
       listing_reply labels msgs (Some r) (fst (listing_options query_page query_limit)) \<and>
     1 \<le> P \<and> 1 \<le> L \<and> currentPage r = P \<and> items r = take L (drop ((P - 1) * L) xs) \<and>
     (case query_page of
        None \<Rightarrow> P = 1
      | Some s \<Rightarrow>
          (case parseInt s of
             Finite i \<Rightarrow> if 1 \<le> i then int P = i else P = 1
           | NaN \<Rightarrow> P = 1 | PosInfinity \<Rightarrow> P = 1 | NegInfinity \<Rightarrow> P = 1)) \<and>
     (case query_limit of
        None \<Rightarrow> L = 10
      | Some s \<Rightarrow>
          (case parseInt s of
             Finite i \<Rightarrow> if 1 \<le> i then int L = i else L = 10
           | NaN \<Rightarrow> L = 10 | PosInfinity \<Rightarrow> L = 10 | NegInfinity \<Rightarrow> L = 10))"
proof -
  let ?P = "positive_or 1 (fst (listing_options query_page query_limit))"
  let ?L = "positive_or 10 (snd (listing_options query_page query_limit))"
  have page: "case query_page of
        None \<Rightarrow> ?P = 1
      | Some s \<Rightarrow>
          (case parseInt s of
             Finite i \<Rightarrow> if 1 \<le> i then int ?P = i else ?P = 1
           | NaN \<Rightarrow> ?P = 1 | PosInfinity \<Rightarrow> ?P = 1 | NegInfinity \<Rightarrow> ?P = 1)"
    by (simp add: listing_options_def parseInt_defaults split: option.splits number.splits)
  have limit: "case query_limit of
        None \<Rightarrow> ?L = 10
      | Some s \<Rightarrow>
          (case parseInt s of
             Finite i \<Rightarrow> if 1 \<le> i then int ?L = i else ?L = 10
           | NaN \<Rightarrow> ?L = 10 | PosInfinity \<Rightarrow> ?L = 10 | NegInfinity \<Rightarrow> ?L = 10)"
    by (simp add: listing_options_def parseInt_defaults split: option.splits number.splits)
  have pos: "1 \<le> ?P" "1 \<le> ?L"
    by (rule positive_or_pos, simp)+
  have "aggregatePaginate xs (listing_options query_page query_limit) =
      Some \<lparr>items = take ?L (drop ((?P - 1) * ?L) xs), totalItems = length xs,
            totalPages = (length xs + ?L - 1) div ?L, currentPage = ?P,
            hasNextPage = (?P * ?L < length xs), hasPrevPage = (1 < ?P)\<rparr>"
    by (simp add: aggregatePaginate_def Let_def)
  with pos page limit show ?thesis
    by (intro exI[of _ ?P] exI[of _ ?L]) (simp add: paginated_listing_def Let_def)
qed

theorem page_and_limit_are_coerced_witness:
  "map_option currentPage (aggregatePaginate twelve_items (listing_options (Some ''abc'') (Some ''-5'')))
     = Some 1 \<and>
   map_option items (aggregatePaginate twelve_items (listing_options (Some ''abc'') (Some ''-5'')))
     = Some [1, 2, 3, 4, 5, 6, 7, 8, 9, 10] \<and>
   map_option items (aggregatePaginate twelve_items (listing_options (Some ''2'') (Some ''5px'')))
     = Some [6, 7, 8, 9, 10] \<and>
   map_option items (aggregatePaginate twelve_items (listing_options None None))
     = Some [1, 2, 3, 4, 5, 6, 7, 8, 9, 10]"
proof -
  have parsed: "parseInt ''abc'' = NaN" "parseInt ''-5'' = Finite (- 5)"
    "parseInt ''2'' = Finite 2" "parseInt ''5px'' = Finite 5"
    by (simp_all add: parse_simps)
  from page_and_limit_are_coerced[where xs = twelve_items and query_page = "Some ''abc''" and
      query_limit = "Some ''-5''" and labels = "(''videos'', ''totalVideos'')" and msgs = video_messages] parsed
  have 1: "map_option currentPage
        (aggregatePaginate twelve_items (listing_options (Some ''abc'') (Some ''-5''))) = Some 1"
    "map_option items
        (aggregatePaginate twelve_items (listing_options (Some ''abc'') (Some ''-5'')))
      = Some [1, 2, 3, 4, 5, 6, 7, 8, 9, 10]"
    by (auto simp: twelve_items_def)
  from page_and_limit_are_coerced[where xs = twelve_items and query_page = "Some ''2''" and
      query_limit = "Some ''5px''" and labels = "(''videos'', ''totalVideos'')" and msgs = video_messages] parsed
  have 2: "map_option items
        (aggregatePaginate twelve_items (listing_options (Some ''2'') (Some ''5px'')))
      = Some [6, 7, 8, 9, 10]"
    by (auto simp: twelve_items_def)
  from page_and_limit_are_coerced[where xs = twelve_items and query_page = None and
      query_limit = None and labels = "(''videos'', ''totalVideos'')" and msgs = video_messages]
  have 3: "map_option items (aggregatePaginate twelve_items (listing_options None None))
      = Some [1, 2, 3, 4, 5, 6, 7, 8, 9, 10]"
    by (auto simp: twelve_items_def)
  from 1 2 3 show ?thesis by simp
qed

subsection \<open>A page beyond the last one\<close>

lemma windows_aggregatePaginate: "windows aggregatePaginate"
  by (auto simp: windows_def aggregatePaginate_def Let_def)

lemma window_reply:
  assumes "windows paginate"
    and "listing_options query_page query_limit = (Finite p, Finite l)"
    and "1 \<le> p" and "1 \<le> l"
  shows "\<exists>r. paginate xs (Finite p, Finite l) = Some r \<and>
     items r = take (nat l) (drop ((nat p - 1) * nat l) xs) \<and>
     paginated_listing paginate labels msgs xs query_page query_limit =
       (if items r = []
        then (if 1 < p
              then ApiResponse 200 (Obj [(fst labels, JDocs []), (''nextPage'', JNull)]) (no_more msgs)
              else ApiResponse 200 (Arr []) (none_found msgs))
        else ApiResponse 200 (render labels r) (fetched msgs))"
proof -
  from assms(1,3,4) obtain r where r: "paginate xs (Finite p, Finite l) = Some r"
    "items r = take (nat l) (drop ((nat p - 1) * nat l) xs)"
    unfolding windows_def by blast
  with assms(2) show ?thesis
    by (intro exI[of _ r]) (simp add: paginated_listing_def listing_reply_def Let_def)
qed

lemma beyond_last_reply:
  assumes "windows paginate"
    and "listing_options query_page query_limit = (Finite p, Finite l)"
    and "1 \<le> p" and "1 \<le> l"
    and "length xs \<le> (nat p - 1) * nat l"
  shows "paginated_listing paginate labels msgs xs query_page query_limit =
     (if 1 < p then ApiResponse 200 (Obj [(fst labels, JDocs []), (''nextPage'', JNull)]) (no_more msgs)
      else ApiResponse 200 (Arr []) (none_found msgs))"
proof -
  from window_reply[OF assms(1-4), of xs labels msgs] obtain r where
    r: "items r = take (nat l) (drop ((nat p - 1) * nat l) xs)"
    "paginated_listing paginate labels msgs xs query_page query_limit =
       (if items r = []
        then (if 1 < p
              then ApiResponse 200 (Obj [(fst labels, JDocs []), (''nextPage'', JNull)]) (no_more msgs)
              else ApiResponse 200 (Arr []) (none_found msgs))
        else ApiResponse 200 (render labels r) (fetched msgs))"
    by blast
  from r(1) assms(5) have "items r = []" by simp
  with r(2) show ?thesis by simp
qed

text \<open>
  C5 (amended). With a plugin that returns the requested window, a listing asked for a
  page \<open>p \<ge> 2\<close> that lies beyond the last item answers with status 200 and the object
  \<open>{docs: [], nextPage: null}\<close> under the listing's label; the object has no other field,
  so neither \<open>hasNextPage\<close> nor \<open>hasPrevPage\<close> is part of the answer. It is never an error.
\<close>

theorem page_beyond_last:
  "windows paginate \<and> listing_options query_page query_limit = (Finite p, Finite l) \<and> 2 \<le> p \<and>
   1 \<le> l \<and> length xs \<le> (nat p - 1) * nat l \<longrightarrow>
     paginated_listing paginate labels msgs xs query_page query_limit =
       ApiResponse 200 (Obj [(fst labels, JDocs []), (''nextPage'', JNull)]) (no_more msgs)"
proof
  assume h: "windows paginate \<and> listing_options query_page query_limit = (Finite p, Finite l) \<and>
    2 \<le> p \<and> 1 \<le> l \<and> length xs \<le> (nat p - 1) * nat l"
  then have "1 \<le> p" "1 < p" by simp_all
  with h beyond_last_reply[of paginate query_page query_limit p l xs labels msgs]
  show "paginated_listing paginate labels msgs xs query_page query_limit =
       ApiResponse 200 (Obj [(fst labels, JDocs []), (''nextPage'', JNull)]) (no_more msgs)"
    by simp
qed

theorem page_beyond_last_witness:
  "paginated_listing aggregatePaginate (''videos'', ''totalVideos'') video_messages twelve_items
     (Some ''5'') (Some ''10'') =
   ApiResponse 200 (Obj [(''videos'', JDocs []), (''nextPage'', JNull)]) ''No more videos found''"
proof -
  have pre: "listing_options (Some ''5'') (Some ''10'') = (Finite 5, Finite 10)"
    "length twelve_items \<le> (nat 5 - 1) * nat 10"
    by (simp_all add: parse_simps twelve_items_def)
  show ?thesis
    using pre windows_aggregatePaginate[where 'a = nat]
      page_beyond_last[of aggregatePaginate "Some ''5''" "Some ''10''" 5 10 twelve_items
        "(''videos'', ''totalVideos'')" video_messages]
    by (simp add: video_messages_def)
qed

text \<open>
  C5 as stated fails: page 5 with limit 10 of a listing of twelve items is answered with an
  object that has neither a \<open>hasNextPage\<close> nor a \<open>hasPrevPage\<close> field, although the plugin's
  result, which the controller drops, has both.
\<close>

theorem beyond_last_page_has_no_flags:
  "field ''hasNextPage'' (data (paginated_listing aggregatePaginate (''videos'', ''totalVideos'')
      video_messages twelve_items (Some ''5'') (Some ''10''))) = None \<and>
   field ''hasPrevPage'' (data (paginated_listing aggregatePaginate (''videos'', ''totalVideos'')
      video_messages twelve_items (Some ''5'') (Some ''10''))) = None \<and>
   map_option hasPrevPage (aggregatePaginate twelve_items (Finite 5, Finite 10)) = Some True"
  by (simp add: paginated_listing_def listing_reply_def parse_simps aggregatePaginate_def
      twelve_items_def video_messages_def)

subsection \<open>Comments of a video that does not exist\<close>

lemma listing_reply_status: "statusCode (listing_reply labels msgs result parsed_page) = 200"
  by (simp add: listing_reply_def split: option.splits)

lemma deleteVideo_keeps_comments:
  "comments (snd (deleteVideo deleter deletedId st)) = comments st \<and>
   users (snd (deleteVideo deleter deletedId st)) = users st \<and>
   likes (snd (deleteVideo deleter deletedId st)) = likes st"
  by (simp add: deleteVideo_def Let_def split: option.splits)

lemma commentAggregate_after_deleteVideo:
  "commentAggregate actor videoId (snd (deleteVideo deleter deletedId st)) =
   commentAggregate actor videoId st"
  by (simp add: commentAggregate_def deleteVideo_keeps_comments)

lemma commentAggregate_lists_stored_comments:
  "(\<lambda>r. (cv_id r, cv_content r)) ` set (commentAggregate actor videoId st) =
     (\<lambda>c. (comment_id c, content c)) ` {c \<in> set (comments st). comment_video c = ObjectId videoId}"
  "length (commentAggregate actor videoId st) =
     countDocuments (\<lambda>c. comment_video c = ObjectId videoId) (comments st)"
  by (auto simp: commentAggregate_def sort_newest_first_def countDocuments_def Let_def image_iff)

text \<open>
  C9 (amended). For every well-formed video id, whether or not a video has it,
  \<open>getVideoComments\<close> answers with status 200 and never with a not-found error: it never
  looks the video up. Its aggregate holds exactly the comments stored for that id, and the
  answer is the requested window of it: the empty array (or, for a page above 1, the
  object \<open>{comments: [], nextPage: null}\<close>) when the window is empty, as it is when no
  comment is stored for the id, and the plugin's result otherwise. Deleting a video
  leaves every listing as it was, so the comments of a deleted video are still returned.
\<close>

theorem getVideoComments_ignores_the_video:
  "isValid videoId \<longrightarrow>
     status_of (getVideoComments paginate actor videoId query_page query_limit st) = 200 \<and>
     getVideoComments paginate actor videoId query_page query_limit
         (snd (deleteVideo deleter deletedId st)) =
       getVideoComments paginate actor videoId query_page query_limit st \<and>
     (\<lambda>r. (cv_id r, cv_content r)) ` set (commentAggregate actor videoId st) =
       (\<lambda>c. (comment_id c, content c)) `
         {c \<in> set (comments st). comment_video c = ObjectId videoId} \<and>
     length (commentAggregate actor videoId st) =
       countDocuments (\<lambda>c. comment_video c = ObjectId videoId) (comments st) \<and>
     (windows paginate \<and> listing_options query_page query_limit = (Finite p, Finite l) \<and>
      1 \<le> p \<and> 1 \<le> l \<longrightarrow>
        (\<exists>r. paginate (commentAggregate actor videoId st) (Finite p, Finite l) = Some r \<and>
           items r = take (nat l) (drop ((nat p - 1) * nat l) (commentAggregate actor videoId st)) \<and>
           getVideoComments paginate actor videoId query_page query_limit st =
             Inr (if items r = []
                  then (if 1 < p
                        then ApiResponse 200 (Obj [(''comments'', JDocs []), (''nextPage'', JNull)])
                               ''No more comments found for this video''
                        else ApiResponse 200 (Arr []) ''No comments found for this video'')
                  else ApiResponse 200 (render (''comments'', ''totalComments'') r)
                         ''Comments fetched successfully'')))"
proof (intro impI conjI)
  assume "isValid videoId"
  then show "status_of (getVideoComments paginate actor videoId query_page query_limit st) = 200"
    by (simp add: getVideoComments_def paginated_listing_def Let_def status_of_def
        listing_reply_status)
next
  show "getVideoComments paginate actor videoId query_page query_limit
         (snd (deleteVideo deleter deletedId st)) =
       getVideoComments paginate actor videoId query_page query_limit st"
    by (simp add: getVideoComments_def commentAggregate_after_deleteVideo)
next
  show "(\<lambda>r. (cv_id r, cv_content r)) ` set (commentAggregate actor videoId st) =
       (\<lambda>c. (comment_id c, content c)) `
         {c \<in> set (comments st). comment_video c = ObjectId videoId}"
    by (rule commentAggregate_lists_stored_comments)
next
  show "length (commentAggregate actor videoId st) =
       countDocuments (\<lambda>c. comment_video c = ObjectId videoId) (comments st)"
    by (rule commentAggregate_lists_stored_comments)
next
  assume v: "isValid videoId"
    and h: "windows paginate \<and> listing_options query_page query_limit = (Finite p, Finite l) \<and>
      1 \<le> p \<and> 1 \<le> l"
  from h window_reply[of paginate query_page query_limit p l "commentAggregate actor videoId st"
      "(''comments'', ''totalComments'')"
      "\<lparr>no_more = ''No more comments found for this video'',
        none_found = ''No comments found for this video'',
        fetched = ''Comments fetched successfully''\<rparr>"]
  obtain r where r: "paginate (commentAggregate actor videoId st) (Finite p, Finite l) = Some r"
    "items r = take (nat l) (drop ((nat p - 1) * nat l) (commentAggregate actor videoId st))"
    "paginated_listing paginate (''comments'', ''totalComments'')
       \<lparr>no_more = ''No more comments found for this video'',
        none_found = ''No comments found for this video'',
        fetched = ''Comments fetched successfully''\<rparr>
       (commentAggregate actor videoId st) query_page query_limit =
     (if items r = []
      then (if 1 < p
            then ApiResponse 200 (Obj [(''comments'', JDocs []), (''nextPage'', JNull)])
                   ''No more comments found for this video''
            else ApiResponse 200 (Arr []) ''No comments found for this video'')
      else ApiResponse 200 (render (''comments'', ''totalComments'') r)
             ''Comments fetched successfully'')"
    by auto
  show "\<exists>r. paginate (commentAggregate actor videoId st) (Finite p, Finite l) = Some r \<and>
      items r = take (nat l) (drop ((nat p - 1) * nat l) (commentAggregate actor videoId st)) \<and>
      getVideoComments paginate actor videoId query_page query_limit st =
        Inr (if items r = []
             then (if 1 < p
                   then ApiResponse 200 (Obj [(''comments'', JDocs []), (''nextPage'', JNull)])
                          ''No more comments found for this video''
                   else ApiResponse 200 (Arr []) ''No comments found for this video'')
             else ApiResponse 200 (render (''comments'', ''totalComments'') r)
                    ''Comments fetched successfully'')"
    using v r by (intro exI[of _ r]) (simp add: getVideoComments_def)
qed

theorem getVideoComments_ignores_the_video_witness:
  "findById video_id (ObjectId fresh1) (videos example_store) = None \<and>
   status_of (getVideoComments aggregatePaginate (Some bob) fresh1 None None example_store) = 200 \<and>
   getVideoComments aggregatePaginate (Some bob) fresh1 None None example_store =
     Inr (ApiResponse 200 (Arr []) ''No comments found for this video'') \<and>
   getVideoComments aggregatePaginate (Some bob) video1 None None
       (snd (deleteVideo (Some alice) video1 example_store)) =
     getVideoComments aggregatePaginate (Some bob) video1 None None example_store \<and>
   length (commentAggregate (Some bob) video1 example_store) = 1"
proof -
  have pre: "isValid fresh1" "isValid video1"
    "listing_options None None = (Finite 1, Finite 10)"
    "findById video_id (ObjectId fresh1) (videos example_store) = None"
    "countDocuments (\<lambda>c. comment_video c = ObjectId fresh1) (comments example_store) = 0"
    "countDocuments (\<lambda>c. comment_video c = ObjectId video1) (comments example_store) = 1"
    by (simp_all add: example_store_def example_docs example_ids id_simps parse_simps
        countDocuments_def)
  from pre windows_aggregatePaginate[where 'a = comment_view]
    getVideoComments_ignores_the_video[of fresh1 aggregatePaginate "Some bob" None None
      example_store "Some alice" video1 1 10]
  have 1: "status_of (getVideoComments aggregatePaginate (Some bob) fresh1 None None example_store)
      = 200"
    "getVideoComments aggregatePaginate (Some bob) fresh1 None None example_store =
       Inr (ApiResponse 200 (Arr []) ''No comments found for this video'')"
    by auto
  from pre
    getVideoComments_ignores_the_video[of video1 aggregatePaginate "Some bob" None None
      example_store "Some alice" video1 1 10]
  have 2: "getVideoComments aggregatePaginate (Some bob) video1 None None
       (snd (deleteVideo (Some alice) video1 example_store)) =
     getVideoComments aggregatePaginate (Some bob) video1 None None example_store"
    "length (commentAggregate (Some bob) video1 example_store) = 1"
    by simp_all
  from pre(4) 1 2 show ?thesis by simp
qed

text \<open>
  C9 as stated fails for a deleted video: after Alice deletes her video, its id refers to
  no video, and the listing still returns Bob's comment on it.
\<close>

theorem deleted_video_keeps_its_comments:
  "findById video_id (ObjectId video1) (videos (snd (deleteVideo (Some alice) video1 example_store)))
     = None \<and>
   getVideoComments aggregatePaginate (Some bob) video1 None None
       (snd (deleteVideo (Some alice) video1 example_store)) =
     Inr (ApiResponse 200
       (Obj [(''comments'',
              JDocs [\<lparr>cv_id = comment1, cv_content = ''nice'', cv_createdAt = 5,
                      cv_owner = Some \<lparr>od_id = bob, od_username = ''bob'', od_avatar = ''b.png'',
                                       od_fullName = ''Bob''\<rparr>,
                      cv_likeCount = 0, cv_isLiked = False\<rparr>]),
             (''totalComments'', JNum 1), (''totalPages'', JNum 1), (''page'', JNum 1),
             (''hasNextPage'', JBool False), (''hasPrevPage'', JBool False)])
       ''Comments fetched successfully'')"
  by (simp add: deleteVideo_def getVideoComments_def paginated_listing_def listing_reply_def
      parse_simps aggregatePaginate_def commentAggregate_def sort_newest_first_def
      project_owner_def first_def in_array_def actor_value_def render_def findByIdAndDelete_def
      example_store_def example_docs example_ids id_simps)

end
